theory Spec2Isabelle
  imports Main "HOL-Library.Word"
begin

section \<open>The file-system emulator \<^verbatim>\<open>fs_emulator.c\<close>\<close>

text \<open>
  A shallow embedding of \<^verbatim>\<open>src/fs_emulator.c\<close>. Bytes are \<^typ>\<open>char\<close> (eight bits),
  a byte stream and a C string are \<^typ>\<open>char list\<close>, \<^verbatim>\<open>uint32_t\<close> is \<^typ>\<open>32 word\<close>.
  The global \<^verbatim>\<open>inode_table\<close> is a list of \<^verbatim>\<open>MAX_INODES\<close> slots that every function
  takes and returns; the storage root is a map from file names to contents.

  Not modelled: the checks of \<^verbatim>\<open>argc\<close>, \<^verbatim>\<open>is_directory\<close> and \<^verbatim>\<open>chdir\<close> at the start of
  \<^verbatim>\<open>main\<close> (the model starts in the storage root), and the failure of a read or a write
  on a stream that was opened (the code ignores the results of \<^verbatim>\<open>fwrite\<close>). The input of a
  session is the list of the strings that \<^verbatim>\<open>fgets\<close> returns.
\<close>

subsection \<open>Constants and data\<close>

type_synonym u32 = "32 word"

definition MAX_INODES :: nat where
  "MAX_INODES = 1024"

definition NAME_LEN :: nat where
  "NAME_LEN = 32"

definition NUL :: char where
  "NUL = CHR 0x00"

definition newline :: char where
  "newline = CHR 0x0A"

text \<open>\<^verbatim>\<open>typedef struct { int used; char type; } InodeInfo;\<close>\<close>

record InodeInfo =
  used :: int
  type :: char

text \<open>\<^verbatim>\<open>typedef struct { uint32_t inode; char name[NAME_LEN]; } DirEnt;\<close>\<close>

record DirEnt =
  inode :: u32
  name :: "char list"

text \<open>
  What a command writes: a line on the standard output, a line on the error stream, or
  a call of \<^verbatim>\<open>perror\<close> (whose text after the prefix depends on \<^verbatim>\<open>errno\<close>).
\<close>

datatype out = Stdout string | Stderr string | Perror string

subsection \<open>C strings and the 32-byte name buffer\<close>

text \<open>
  \<^verbatim>\<open>strncpy(dst, src, n)\<close> writes exactly \<open>n\<close> bytes: the bytes of \<open>src\<close> up to its
  terminator, at most \<open>n\<close> of them, and NUL bytes for the rest. A C string ends at its
  first NUL byte; the end of the HOL list stands for the terminator too.
\<close>

fun strncpy :: "nat \<Rightarrow> char list \<Rightarrow> char list" where
  "strncpy 0 src = []"
| "strncpy (Suc n) [] = NUL # strncpy n []"
| "strncpy (Suc n) (c # cs) = (if c = NUL then NUL # strncpy n [] else c # strncpy n cs)"

text \<open>
  \<^verbatim>\<open>make_name32\<close>: \<^verbatim>\<open>memset(dst, 0, NAME_LEN); strncpy(dst, src, NAME_LEN);\<close>.
  The result is the content of the buffer \<open>dst\<close>.
\<close>

definition make_name32 :: "char list \<Rightarrow> char list" where
  "make_name32 src =
     (let dst = replicate NAME_LEN NUL
      in strncpy NAME_LEN src @ drop NAME_LEN dst)"

text \<open>The bytes of a C string: up to the first NUL.\<close>

definition cstr :: "char list \<Rightarrow> char list" where
  "cstr s = takeWhile (\<lambda>c. c \<noteq> NUL) s"

subsection \<open>The object representation of \<^verbatim>\<open>uint32_t\<close>\<close>

text \<open>
  \<^verbatim>\<open>fwrite(&i, sizeof(uint32_t), 1, f)\<close> writes the four bytes of the object and
  \<^verbatim>\<open>fread\<close> reads them back; the model fixes the little-endian order.
\<close>

definition enc32 :: "u32 \<Rightarrow> char list" where
  "enc32 w =
     [char_of (unat w), char_of (unat w div 256),
      char_of (unat w div 65536), char_of (unat w div 16777216)]"

definition dec32 :: "char list \<Rightarrow> u32" where
  "dec32 bs =
     word_of_nat (of_char (bs ! 0) + 256 * of_char (bs ! 1)
                  + 65536 * of_char (bs ! 2) + 16777216 * of_char (bs ! 3))"

text \<open>\<^verbatim>\<open>snprintf(fname, sizeof(fname), "%u", n)\<close>: the decimal digits of \<open>n\<close>.\<close>

fun decimal :: "nat \<Rightarrow> string" where
  "decimal n =
     (if n < 10 then [char_of (48 + n)]
      else decimal (n div 10) @ [char_of (48 + n mod 10)])"

declare decimal.simps [simp del]

definition inode_fname :: "u32 \<Rightarrow> string" where
  "inode_fname n = decimal (unat n)"

subsection \<open>The storage root\<close>

text \<open>
  The files of the storage root, by name, and which \<^verbatim>\<open>fopen\<close> calls the system
  grants: \<^verbatim>\<open>"rb"\<close> needs the file to exist, \<^verbatim>\<open>"wb"\<close> creates or truncates it,
  \<^verbatim>\<open>"ab"\<close> creates it when absent. Once a file is open, reads and writes succeed.
\<close>

datatype fmode = RB | WB | AB

record filesys =
  content :: "string \<Rightarrow> char list option"
  fopen_ok :: "string \<Rightarrow> fmode \<Rightarrow> bool"

definition fopen_rb :: "filesys \<Rightarrow> string \<Rightarrow> char list option" where
  "fopen_rb fs fname = (if fopen_ok fs fname RB then content fs fname else None)"

definition fopen_wb :: "filesys \<Rightarrow> string \<Rightarrow> filesys option" where
  "fopen_wb fs fname =
     (if fopen_ok fs fname WB then Some (fs\<lparr>content := (content fs)(fname \<mapsto> [])\<rparr>)
      else None)"

definition fopen_ab :: "filesys \<Rightarrow> string \<Rightarrow> filesys option" where
  "fopen_ab fs fname =
     (if fopen_ok fs fname AB
      then Some (case content fs fname of
                   None \<Rightarrow> fs\<lparr>content := (content fs)(fname \<mapsto> [])\<rparr>
                 | Some _ \<Rightarrow> fs)
      else None)"

text \<open>\<^verbatim>\<open>fwrite\<close> on a stream opened for writing or appending: the bytes go at the end.\<close>

definition fwrite :: "filesys \<Rightarrow> string \<Rightarrow> char list \<Rightarrow> filesys" where
  "fwrite fs fname bs =
     fs\<lparr>content := (content fs)(fname \<mapsto> (case content fs fname of
                                              None \<Rightarrow> bs | Some old \<Rightarrow> old @ bs))\<rparr>"

subsection \<open>Loading and saving the inode table\<close>

text \<open>
  The loop of \<^verbatim>\<open>load_inodes_list\<close> over the bytes left in the stream: it stops at the
  first short read, skips a record whose index is out of range or whose type is not
  \<^verbatim>\<open>'d'\<close> or \<^verbatim>\<open>'f'\<close> with a message, and otherwise marks the slot.
\<close>

function load_loop :: "char list \<Rightarrow> InodeInfo list \<Rightarrow> InodeInfo list \<times> out list" where
  "load_loop bs tbl =
     (if length bs < 4 then (tbl, [])
      else if length (drop 4 bs) < 1 then (tbl, [])
      else
        let index = dec32 (take 4 bs);
            ty = hd (drop 4 bs);
            rest = drop 5 bs
        in if unat index \<ge> MAX_INODES then
             (let (t, os) = load_loop rest tbl
              in (t, Stderr (''Invalid inode (out of range): '' @ decimal (unat index) @ [newline]) # os))
           else if ty \<noteq> CHR ''d'' \<and> ty \<noteq> CHR ''f'' then
             (let (t, os) = load_loop rest tbl
              in (t, Stderr (''Invalid inode type for inode '' @ decimal (unat index) @ [newline]) # os))
           else
             (let tbl1 = tbl[unat index := (tbl ! unat index)\<lparr>used := 1\<rparr>];
                  tbl2 = tbl1[unat index := (tbl1 ! unat index)\<lparr>type := ty\<rparr>]
              in load_loop rest tbl2))"
  by pat_completeness auto
termination
  by (relation "measure (\<lambda>(bs, tbl). length bs)") auto

declare load_loop.simps [simp del]

text \<open>
  \<^verbatim>\<open>load_inodes_list\<close>: \<open>None\<close> is \<^verbatim>\<open>perror("inodes_list"); exit(1);\<close>.
\<close>

definition load_inodes_list :: "filesys \<Rightarrow> InodeInfo list \<Rightarrow> (InodeInfo list \<times> out list) option" where
  "load_inodes_list fs tbl =
     (case fopen_rb fs ''inodes_list'' of
        None \<Rightarrow> None
      | Some bs \<Rightarrow> Some (load_loop bs tbl))"

text \<open>The loop of \<^verbatim>\<open>save_inodes_list\<close> from index \<open>i\<close> on: the bytes it writes.\<close>

function save_loop :: "InodeInfo list \<Rightarrow> nat \<Rightarrow> char list" where
  "save_loop tbl i =
     (if i < MAX_INODES then
        (if used (tbl ! i) \<noteq> 0
         then enc32 (word_of_nat i) @ [type (tbl ! i)] @ save_loop tbl (Suc i)
         else save_loop tbl (Suc i))
      else [])"
  by pat_completeness auto
termination
  by (relation "measure (\<lambda>(tbl, i). MAX_INODES - i)") auto

declare save_loop.simps [simp del]

definition save_inodes_list :: "filesys \<Rightarrow> InodeInfo list \<Rightarrow> filesys \<times> out list" where
  "save_inodes_list fs tbl =
     (case fopen_wb fs ''inodes_list'' of
        None \<Rightarrow> (fs, [Perror ''inodes_list''])
      | Some fs1 \<Rightarrow> (fwrite fs1 ''inodes_list'' (save_loop tbl 0), []))"

subsection \<open>Directories\<close>

text \<open>
  The condition of the reading loops of \<^verbatim>\<open>dir_find\<close> and \<^verbatim>\<open>cmd_ls\<close>:
  \<^verbatim>\<open>fread(&ent.inode, sizeof(uint32_t), 1, f) == 1 && fread(ent.name, 1, NAME_LEN, f) == NAME_LEN\<close>.
  It gives the entry read and the bytes left, or \<open>None\<close> at a short read.
\<close>

definition fread_dirent :: "char list \<Rightarrow> (DirEnt \<times> char list) option" where
  "fread_dirent bs =
     (if length bs < 4 then None
      else if length (drop 4 bs) < NAME_LEN then None
      else Some (\<lparr>inode = dec32 (take 4 bs), name = take NAME_LEN (drop 4 bs)\<rparr>,
                 drop NAME_LEN (drop 4 bs)))"

text \<open>The loop of \<^verbatim>\<open>dir_find\<close>; \<^verbatim>\<open>memcmp\<close> compares the \<^verbatim>\<open>NAME_LEN\<close> bytes.\<close>

function dir_find_loop :: "char list \<Rightarrow> char list \<Rightarrow> DirEnt option" where
  "dir_find_loop key bs =
     (case fread_dirent bs of
        None \<Rightarrow> None
      | Some (ent, rest) \<Rightarrow>
          if take NAME_LEN (name ent) = take NAME_LEN key then Some ent
          else dir_find_loop key rest)"
  by pat_completeness auto
termination
  by (relation "measure (\<lambda>(key, bs). length bs)")
     (auto simp: fread_dirent_def split: if_splits)

declare dir_find_loop.simps [simp del]

text \<open>\<^verbatim>\<open>dir_find\<close>: \<open>None\<close> is the result 0, \<open>Some ent\<close> the result 1 with \<^verbatim>\<open>*out = ent\<close>.\<close>

definition dir_find :: "filesys \<Rightarrow> u32 \<Rightarrow> char list \<Rightarrow> DirEnt option" where
  "dir_find fs dir_inode nm =
     (case fopen_rb fs (inode_fname dir_inode) of
        None \<Rightarrow> None
      | Some bs \<Rightarrow> (let key = make_name32 nm in dir_find_loop key bs))"

text \<open>\<^verbatim>\<open>dir_append\<close>: \<open>None\<close> is the result 0, \<open>Some\<close> the storage after the result 1.\<close>

definition dir_append :: "filesys \<Rightarrow> u32 \<Rightarrow> u32 \<Rightarrow> char list \<Rightarrow> filesys option" where
  "dir_append fs dir_inode child_inode nm =
     (case fopen_ab fs (inode_fname dir_inode) of
        None \<Rightarrow> None
      | Some fs1 \<Rightarrow>
          (let namebuf = make_name32 nm;
               fs2 = fwrite fs1 (inode_fname dir_inode) (enc32 child_inode);
               fs3 = fwrite fs2 (inode_fname dir_inode) (take NAME_LEN namebuf)
           in Some fs3))"

text \<open>\<^verbatim>\<open>find_free_inode\<close>: the loop from index \<open>i\<close> on; \<open>-1\<close> when no slot is free.\<close>

function find_free_from :: "InodeInfo list \<Rightarrow> nat \<Rightarrow> int" where
  "find_free_from tbl i =
     (if i < MAX_INODES then
        (if used (tbl ! i) = 0 then int i else find_free_from tbl (Suc i))
      else - 1)"
  by pat_completeness auto
termination
  by (relation "measure (\<lambda>(tbl, i). MAX_INODES - i)") auto

declare find_free_from.simps [simp del]

definition find_free_inode :: "InodeInfo list \<Rightarrow> int" where
  "find_free_inode tbl = find_free_from tbl 0"

definition create_dir_inode :: "filesys \<Rightarrow> u32 \<Rightarrow> u32 \<Rightarrow> filesys option" where
  "create_dir_inode fs new_inode parent_inode =
     (case fopen_wb fs (inode_fname new_inode) of
        None \<Rightarrow> None
      | Some fs1 \<Rightarrow>
          (let dot = make_name32 ''.'';
               dotdot = make_name32 ''..'';
               fs2 = fwrite fs1 (inode_fname new_inode) (enc32 new_inode);
               fs3 = fwrite fs2 (inode_fname new_inode) (take NAME_LEN dot);
               fs4 = fwrite fs3 (inode_fname new_inode) (enc32 parent_inode);
               fs5 = fwrite fs4 (inode_fname new_inode) (take NAME_LEN dotdot)
           in Some fs5))"

text \<open>
  \<^verbatim>\<open>create_file_inode\<close>: the loop counts the bytes of the buffer before its first NUL,
  at most \<^verbatim>\<open>NAME_LEN\<close>.
\<close>

definition create_file_inode :: "filesys \<Rightarrow> u32 \<Rightarrow> char list \<Rightarrow> filesys option" where
  "create_file_inode fs new_inode nm =
     (case fopen_wb fs (inode_fname new_inode) of
        None \<Rightarrow> None
      | Some fs1 \<Rightarrow>
          (let namebuf = make_name32 nm;
               n = length (takeWhile (\<lambda>c. c \<noteq> NUL) (take NAME_LEN namebuf))
           in Some (fwrite fs1 (inode_fname new_inode) (take n namebuf))))"

subsection \<open>Commands\<close>

text \<open>The process state: the global table and the storage root.\<close>

record state =
  inode_table :: "InodeInfo list"
  storage :: filesys

function ls_loop :: "char list \<Rightarrow> out list" where
  "ls_loop bs =
     (case fread_dirent bs of
        None \<Rightarrow> []
      | Some (ent, rest) \<Rightarrow>
          (let namebuf = take NAME_LEN (name ent) @ [NUL]
           in Stdout (decimal (unat (inode ent)) @ '' '' @ cstr namebuf @ [newline])
              # ls_loop rest))"
  by pat_completeness auto
termination
  by (relation "measure length") (auto simp: fread_dirent_def split: if_splits)

declare ls_loop.simps [simp del]

definition cmd_ls :: "state \<Rightarrow> u32 \<Rightarrow> out list" where
  "cmd_ls st cwd =
     (case fopen_rb (storage st) (inode_fname cwd) of
        None \<Rightarrow> [Perror ''ls'']
      | Some bs \<Rightarrow> ls_loop bs)"

text \<open>\<^verbatim>\<open>cmd_cd\<close> returns the new value of \<^verbatim>\<open>*cwd\<close> and what it printed.\<close>

definition cmd_cd :: "state \<Rightarrow> u32 \<Rightarrow> char list \<Rightarrow> u32 \<times> out list" where
  "cmd_cd st cwd nm =
     (case dir_find (storage st) cwd nm of
        None \<Rightarrow> (cwd, [Stderr (''cd: no such directory'' @ [newline])])
      | Some ent \<Rightarrow>
          if unat (inode ent) \<ge> MAX_INODES \<or> used (inode_table st ! unat (inode ent)) = 0 \<or>
             type (inode_table st ! unat (inode ent)) \<noteq> CHR ''d''
          then (cwd, [Stderr (''cd: not a directory'' @ [newline])])
          else (inode ent, []))"

definition cmd_mkdir :: "state \<Rightarrow> u32 \<Rightarrow> char list \<Rightarrow> state \<times> out list" where
  "cmd_mkdir st cwd nm =
     (if dir_find (storage st) cwd nm \<noteq> None
      then (st, [Stderr (''mkdir: already exists'' @ [newline])])
      else
        let free_i = find_free_inode (inode_table st)
        in if free_i < 0 then (st, [Stderr (''mkdir: no free inodes'' @ [newline])])
           else
             let i = nat free_i;
                 tbl1 = (inode_table st)[i := (inode_table st ! i)\<lparr>used := 1\<rparr>];
                 tbl2 = tbl1[i := (tbl1 ! i)\<lparr>type := CHR ''d''\<rparr>];
                 rollback = tbl2[i := (tbl2 ! i)\<lparr>used := 0\<rparr>]
             in case create_dir_inode (storage st) (word_of_int free_i) cwd of
                  None \<Rightarrow> (\<lparr>inode_table = rollback, storage = storage st\<rparr>, [])
                | Some fs1 \<Rightarrow>
                    (case dir_append fs1 cwd (word_of_int free_i) nm of
                       None \<Rightarrow> (\<lparr>inode_table = rollback, storage = fs1\<rparr>, [])
                     | Some fs2 \<Rightarrow> (\<lparr>inode_table = tbl2, storage = fs2\<rparr>, [])))"

definition cmd_touch :: "state \<Rightarrow> u32 \<Rightarrow> char list \<Rightarrow> state \<times> out list" where
  "cmd_touch st cwd nm =
     (if dir_find (storage st) cwd nm \<noteq> None
      then (st, [])
      else
        let free_i = find_free_inode (inode_table st)
        in if free_i < 0 then (st, [Stderr (''touch: no free inodes'' @ [newline])])
           else
             let i = nat free_i;
                 tbl1 = (inode_table st)[i := (inode_table st ! i)\<lparr>used := 1\<rparr>];
                 tbl2 = tbl1[i := (tbl1 ! i)\<lparr>type := CHR ''f''\<rparr>];
                 rollback = tbl2[i := (tbl2 ! i)\<lparr>used := 0\<rparr>]
             in case create_file_inode (storage st) (word_of_int free_i) nm of
                  None \<Rightarrow> (\<lparr>inode_table = rollback, storage = storage st\<rparr>, [])
                | Some fs1 \<Rightarrow>
                    (case dir_append fs1 cwd (word_of_int free_i) nm of
                       None \<Rightarrow> (\<lparr>inode_table = rollback, storage = fs1\<rparr>, [])
                     | Some fs2 \<Rightarrow> (\<lparr>inode_table = tbl2, storage = fs2\<rparr>, [])))"

subsection \<open>The session\<close>

text \<open>
  The successive results of \<^verbatim>\<open>strtok(line, " \t")\<close>, \<^verbatim>\<open>strtok(NULL, " \t")\<close>, ...: the
  maximal runs of bytes that are neither a space nor a tab. \<open>acc\<close> is the token being read.
\<close>

fun strtok_all :: "char list \<Rightarrow> char list \<Rightarrow> char list list" where
  "strtok_all acc [] = (if acc = [] then [] else [acc])"
| "strtok_all acc (c # cs) =
     (if c = CHR '' '' \<or> c = CHR 0x09
      then (if acc = [] then strtok_all [] cs else acc # strtok_all [] cs)
      else strtok_all (acc @ [c]) cs)"

text \<open>
  One turn of the loop of \<^verbatim>\<open>main\<close> on a line that \<^verbatim>\<open>fgets\<close> returned: the state, the
  current directory, the output, and whether the loop ends (\<^verbatim>\<open>break\<close>).
\<close>

definition invalid_command :: "out list" where
  "invalid_command = [Stderr (''Invalid command'' @ [newline])]"

definition exec_line :: "state \<Rightarrow> u32 \<Rightarrow> char list \<Rightarrow> state \<times> u32 \<times> out list \<times> bool" where
  "exec_line st cwd line =
     (case strtok_all [] (takeWhile (\<lambda>c. c \<noteq> newline) (cstr line)) of
        [] \<Rightarrow> (st, cwd, [], False)
      | cmd # args \<Rightarrow>
          if cmd = ''ls'' then
            (if args \<noteq> [] then (st, cwd, invalid_command, False)
             else (st, cwd, cmd_ls st cwd, False))
          else if cmd = ''cd'' then
            (if args = [] \<or> tl args \<noteq> [] then (st, cwd, invalid_command, False)
             else (let (cwd', os) = cmd_cd st cwd (hd args) in (st, cwd', os, False)))
          else if cmd = ''mkdir'' then
            (if args = [] \<or> tl args \<noteq> [] then (st, cwd, invalid_command, False)
             else (let (st', os) = cmd_mkdir st cwd (hd args) in (st', cwd, os, False)))
          else if cmd = ''touch'' then
            (if args = [] \<or> tl args \<noteq> [] then (st, cwd, invalid_command, False)
             else (let (st', os) = cmd_touch st cwd (hd args) in (st', cwd, os, False)))
          else if cmd = ''exit'' then
            (if args \<noteq> [] then (st, cwd, invalid_command, False)
             else (let (fs', os) = save_inodes_list (storage st) (inode_table st)
                   in (st\<lparr>storage := fs'\<rparr>, cwd, os, True)))
          else (st, cwd, invalid_command, False))"

text \<open>
  The loop of \<^verbatim>\<open>main\<close> over the lines that \<^verbatim>\<open>fgets\<close> returns; at the end of the input it
  saves the table and stops.
\<close>

fun main_loop :: "state \<Rightarrow> u32 \<Rightarrow> char list list \<Rightarrow> state \<times> u32 \<times> out list" where
  "main_loop st cwd [] =
     (let (fs', os) = save_inodes_list (storage st) (inode_table st)
      in (st\<lparr>storage := fs'\<rparr>, cwd, os))"
| "main_loop st cwd (line # rest) =
     (let (st', cwd', os, stop) = exec_line st cwd line
      in if stop then (st', cwd', os)
         else (let (st'', cwd'', os') = main_loop st' cwd' rest in (st'', cwd'', os @ os')))"

text \<open>
  \<^verbatim>\<open>main\<close> once the process is in the storage root: the table is cleared and loaded, inode 0
  must be a used directory, and the loop starts at \<^verbatim>\<open>cwd = 0\<close>. \<open>empty_table\<close> is the
  table after \<^verbatim>\<open>memset(inode_table, 0, sizeof(inode_table))\<close>. The result is the exit
  code, the output, and the final state and current directory when the session ran.
\<close>

definition empty_table :: "InodeInfo list" where
  "empty_table = replicate MAX_INODES \<lparr>used = 0, type = NUL\<rparr>"

definition main_init :: "filesys \<Rightarrow> out list + (state \<times> u32 \<times> out list)" where
  "main_init fs =
     (let tbl0 = empty_table
      in case load_inodes_list fs tbl0 of
           None \<Rightarrow> Inl [Perror ''inodes_list'']
         | Some (tbl, os) \<Rightarrow>
             if used (tbl ! 0) = 0 \<or> type (tbl ! 0) \<noteq> CHR ''d''
             then Inl (os @ [Stderr (''inode 0 is not a directory'' @ [newline])])
             else Inr (\<lparr>inode_table = tbl, storage = fs\<rparr>, 0, os))"

definition main :: "filesys \<Rightarrow> char list list \<Rightarrow> int \<times> out list \<times> (state \<times> u32) option" where
  "main fs lines =
     (case main_init fs of
        Inl os \<Rightarrow> (1, os, None)
      | Inr (st, cwd, os) \<Rightarrow>
          (let (st', cwd', os') = main_loop st cwd lines in (0, os @ os', Some (st', cwd'))))"

subsection \<open>Notions used in the statements\<close>

text \<open>The used slots of a table with their types, in ascending order of index.\<close>

definition used_slots :: "InodeInfo list \<Rightarrow> (nat \<times> char) list" where
  "used_slots tbl = map (\<lambda>i. (i, type (tbl ! i))) (filter (\<lambda>i. used (tbl ! i) \<noteq> 0) [0..<MAX_INODES])"

text \<open>Every used slot carries the type tag \<^verbatim>\<open>'d'\<close> or \<^verbatim>\<open>'f'\<close>.\<close>

definition valid_types :: "InodeInfo list \<Rightarrow> bool" where
  "valid_types tbl =
     list_all (\<lambda>i. used (tbl ! i) \<noteq> 0 \<longrightarrow> type (tbl ! i) = CHR ''d'' \<or> type (tbl ! i) = CHR ''f'')
       [0..<MAX_INODES]"

text \<open>
  The records that the reading loop of \<^verbatim>\<open>dir_find\<close> and \<^verbatim>\<open>cmd_ls\<close> sees in a stream, in
  order, up to the first short read.
\<close>

function dir_entries :: "char list \<Rightarrow> DirEnt list" where
  "dir_entries bs =
     (case fread_dirent bs of
        None \<Rightarrow> []
      | Some (ent, rest) \<Rightarrow> ent # dir_entries rest)"
  by pat_completeness auto
termination
  by (relation "measure length") (auto simp: fread_dirent_def split: if_splits)

declare dir_entries.simps [simp del]

text \<open>A stream made of whole directory records of \<^verbatim>\<open>sizeof(uint32_t) + NAME_LEN\<close> bytes.\<close>

definition aligned :: "char list \<Rightarrow> bool" where
  "aligned bs \<longleftrightarrow> length bs mod (4 + NAME_LEN) = 0"

text \<open>The bytes of a file of the storage root; none when the file does not exist.\<close>

definition file_bytes :: "filesys \<Rightarrow> string \<Rightarrow> char list" where
  "file_bytes fs fname = (case content fs fname of None \<Rightarrow> [] | Some bs \<Rightarrow> bs)"

text \<open>The current directory is an index of the table whose slot is a used directory.\<close>

definition cwd_ok :: "InodeInfo list \<Rightarrow> u32 \<Rightarrow> bool" where
  "cwd_ok tbl cwd \<longleftrightarrow>
     unat cwd < MAX_INODES \<and> used (tbl ! unat cwd) \<noteq> 0 \<and> type (tbl ! unat cwd) = CHR ''d''"

text \<open>One directory record: the inode number and the 32-byte name.\<close>

definition dirent_bytes :: "u32 \<Rightarrow> char list \<Rightarrow> char list" where
  "dirent_bytes n nm = enc32 n @ make_name32 nm"

text \<open>One record of \<^verbatim>\<open>inodes_list\<close>: the index and the type byte.\<close>

definition inode_record :: "u32 \<Rightarrow> char \<Rightarrow> char list" where
  "inode_record n t = enc32 n @ [t]"

subsection \<open>Example states\<close>

text \<open>A table whose slots 0, 7 and 3 were marked in that order.\<close>

definition demo_table :: "InodeInfo list" where
  "demo_table = empty_table[0 := \<lparr>used = 1, type = CHR ''d''\<rparr>, 7 := \<lparr>used = 1, type = CHR ''f''\<rparr>,
                            3 := \<lparr>used = 1, type = CHR ''d''\<rparr>]"

text \<open>A table with the root directory, a file in slot 1 and a directory in slot 2.\<close>

definition small_table :: "InodeInfo list" where
  "small_table = empty_table[0 := \<lparr>used = 1, type = CHR ''d''\<rparr>, 1 := \<lparr>used = 1, type = CHR ''f''\<rparr>,
                             2 := \<lparr>used = 1, type = CHR ''d''\<rparr>]"

text \<open>A storage root whose root directory lists itself, the file, the directory, a free
  slot and an inode number out of range; \<open>ok\<close> says which \<^verbatim>\<open>fopen\<close> calls succeed.\<close>

definition small_fs :: "(string \<Rightarrow> fmode \<Rightarrow> bool) \<Rightarrow> filesys" where
  "small_fs ok =
     \<lparr>content = [''0'' \<mapsto> dirent_bytes 0 ''.'' @ dirent_bytes 0 ''..'' @ dirent_bytes 1 ''f''
                           @ dirent_bytes 2 ''d'' @ dirent_bytes 5 ''ghost''
                           @ dirent_bytes 5000 ''far''],
      fopen_ok = ok\<rparr>"

definition small_state :: "(string \<Rightarrow> fmode \<Rightarrow> bool) \<Rightarrow> state" where
  "small_state ok = \<lparr>inode_table = small_table, storage = small_fs ok\<rparr>"

text \<open>The table with every slot used.\<close>

definition full_table :: "InodeInfo list" where
  "full_table = replicate MAX_INODES \<lparr>used = 1, type = CHR ''d''\<rparr>"

text \<open>Every \<^verbatim>\<open>fopen\<close> succeeds; all but the creation of the file \<^verbatim>\<open>3\<close>; all but the
  appending to the file \<^verbatim>\<open>0\<close>.\<close>

definition all_ok :: "string \<Rightarrow> fmode \<Rightarrow> bool" where
  "all_ok fname m = True"

definition no_create3 :: "string \<Rightarrow> fmode \<Rightarrow> bool" where
  "no_create3 fname m = (\<not> (fname = ''3'' \<and> m = WB))"

definition no_append0 :: "string \<Rightarrow> fmode \<Rightarrow> bool" where
  "no_append0 fname m = (\<not> (fname = ''0'' \<and> m = AB))"

text \<open>Two names of 40 bytes with the same first 32 bytes, and that prefix.\<close>

definition long_name1 :: "char list" where
  "long_name1 = ''abcdefghijklmnopqrstuvwxyz012345'' @ ''6789ABCD''"

definition long_name2 :: "char list" where
  "long_name2 = ''abcdefghijklmnopqrstuvwxyz012345'' @ ''zzzzzzzz''"

definition long_prefix :: "char list" where
  "long_prefix = ''abcdefghijklmnopqrstuvwxyz012345''"

text \<open>The first 31 bytes of the long names.\<close>

definition short_prefix :: "char list" where
  "short_prefix = ''abcdefghijklmnopqrstuvwxyz01234''"

text \<open>The small storage root with the table of the small state saved in \<^verbatim>\<open>inodes_list\<close>.\<close>

definition saved_fs :: filesys where
  "saved_fs = (small_fs all_ok)\<lparr>content := (content (small_fs all_ok))
     (''inodes_list'' \<mapsto> inode_record 0 CHR ''d'' @ inode_record 1 CHR ''f''
                            @ inode_record 2 CHR ''d'')\<rparr>"

text \<open>No \<^verbatim>\<open>fopen\<close> succeeds.\<close>

definition none_ok :: "string \<Rightarrow> fmode \<Rightarrow> bool" where
  "none_ok fname m = False"

section \<open>Properties\<close>

subsection \<open>Names, integers and file names\<close>

lemma length_strncpy: "length (strncpy n s) = n"
  by (induction n s rule: strncpy.induct) auto

lemma strncpy_Nil: "strncpy n [] = replicate n NUL"
  by (induction n) auto

lemma strncpy_eq: "strncpy n s = take n (cstr s) @ replicate (n - length (cstr s)) NUL"
  by (induction n s rule: strncpy.induct) (auto simp: cstr_def strncpy_Nil)

lemma make_name32_eq:
  "make_name32 s = take NAME_LEN (cstr s) @ replicate (NAME_LEN - length (cstr s)) NUL"
  by (simp add: make_name32_def strncpy_eq)

lemma length_make_name32: "length (make_name32 s) = NAME_LEN"
  by (simp add: make_name32_def length_strncpy)

lemma length_enc32: "length (enc32 w) = 4"
  by (simp add: enc32_def)

lemma bytes_of_nat:
  assumes "(n::nat) < 4294967296"
  shows "n mod 256 + 256 * (n div 256 mod 256) + 65536 * (n div 65536 mod 256)
         + 16777216 * (n div 16777216) = n"
proof -
  define a where "a = n div 256"
  define b where "b = a div 256"
  define c where "c = b div 256"
  have n: "n = 256 * a + n mod 256" by (simp add: a_def)
  have a: "a = 256 * b + a mod 256" by (simp add: b_def)
  have b: "b = 256 * c + b mod 256" by (simp add: c_def)
  have b': "n div 65536 = b" by (simp add: a_def b_def div_mult2_eq)
  have c': "n div 16777216 = c" by (simp add: a_def b_def c_def div_mult2_eq)
  show ?thesis
    unfolding b' c' a_def [symmetric] using n a b by linarith
qed

lemma dec32_enc32: "dec32 (enc32 w) = w"
proof -
  have lt: "unat w < 4294967296" using unsigned_less [of w, where 'a = nat] by simp
  have "(of_char (enc32 w ! 0) + 256 * of_char (enc32 w ! 1) + 65536 * of_char (enc32 w ! 2)
         + 16777216 * of_char (enc32 w ! 3) :: nat) = unat w"
  proof -
    have "unat w div 16777216 < 256" using lt by simp
    then have "unat w div 16777216 mod 256 = unat w div 16777216" by (rule mod_less)
    then show ?thesis using bytes_of_nat [OF lt] by (simp add: enc32_def)
  qed
  then show ?thesis unfolding dec32_def by simp
qed

lemma take4_enc32: "take 4 (enc32 w @ bs) = enc32 w"
  by (simp add: length_enc32)

lemma drop4_enc32: "drop 4 (enc32 w @ bs) = bs"
  by (simp add: length_enc32)

lemma drop5_enc32: "drop 5 (enc32 w @ b # bs) = bs"
  by (simp add: length_enc32)

lemma decimal_ne: "decimal n \<noteq> []"
  by (subst decimal.simps) simp

lemma decimal_inj: "decimal a = decimal b \<Longrightarrow> a = b"
proof (induction a arbitrary: b rule: decimal.induct)
  case (1 n)
  show ?case
  proof (cases "n < 10")
    case True
    show ?thesis
    proof (cases "b < 10")
      case b: True
      from 1(2) True b have "char_of (48 + n) = char_of (48 + b)"
        by (simp add: decimal.simps [of n] decimal.simps [of b])
      then have "(48 + n) mod 256 = (48 + b) mod 256" by simp
      with True b show ?thesis by simp
    next
      case b: False
      from 1(2) True b have "decimal (b div 10) = []"
        by (simp add: decimal.simps [of n] decimal.simps [of b])
      then show ?thesis by (simp add: decimal_ne)
    qed
  next
    case False
    show ?thesis
    proof (cases "b < 10")
      case b: True
      from 1(2) False b have "decimal (n div 10) = []"
        by (simp add: decimal.simps [of n] decimal.simps [of b])
      then show ?thesis by (simp add: decimal_ne)
    next
      case b: False
      from 1(2) False b have eq: "decimal (n div 10) = decimal (b div 10)"
        and d: "char_of (48 + n mod 10) = char_of (48 + b mod 10)"
        by (simp_all add: decimal.simps [of n] decimal.simps [of b])
      from 1(1) [OF False eq] have "n div 10 = b div 10" .
      from d have "(48 + n mod 10) mod 256 = (48 + b mod 10) mod 256" by simp
      moreover have "n mod 10 < 10" "b mod 10 < 10" by simp_all
      ultimately have "n mod 10 = b mod 10" by simp
      with \<open>n div 10 = b div 10\<close> show ?thesis by (metis div_mult_mod_eq)
    qed
  qed
qed

lemma inode_fname_inj: "inode_fname a = inode_fname b \<longleftrightarrow> a = b"
proof
  assume "inode_fname a = inode_fname b"
  then have "unat a = unat b" by (auto simp: inode_fname_def dest: decimal_inj)
  then show "a = b" by (simp add: word_unat_eq_iff)
qed simp

subsection \<open>Saving and loading the table\<close>

lemma unat_slot: "j < MAX_INODES \<Longrightarrow> unat (word_of_nat j :: u32) = j"
  by (simp add: MAX_INODES_def unat_of_nat)

lemma InodeInfo_set_both: "(r::InodeInfo)\<lparr>used := a, type := b\<rparr> = \<lparr>used = a, type = b\<rparr>"
  by (cases r) simp

lemma load_loop_record:
  assumes "j < MAX_INODES" and "t = CHR ''d'' \<or> t = CHR ''f''" and "j < length tbl"
  shows "load_loop (enc32 (word_of_nat j) @ t # rest) tbl
         = load_loop rest (tbl[j := \<lparr>used = 1, type = t\<rparr>])"
  using assms
  by (subst load_loop.simps)
     (auto simp: length_enc32 take4_enc32 drop4_enc32 drop5_enc32 dec32_enc32 unat_slot Let_def
                 InodeInfo_set_both)

lemma valid_typesD:
  "valid_types tbl \<Longrightarrow> i < MAX_INODES \<Longrightarrow> used (tbl ! i) \<noteq> 0
   \<Longrightarrow> type (tbl ! i) = CHR ''d'' \<or> type (tbl ! i) = CHR ''f''"
  by (simp add: valid_types_def list_all_iff)

lemma load_save_loop:
  "valid_types tbl \<Longrightarrow> length T = MAX_INODES \<Longrightarrow>
     snd (load_loop (save_loop tbl i) T) = [] \<and>
     length (fst (load_loop (save_loop tbl i) T)) = MAX_INODES \<and>
     (\<forall>k<MAX_INODES. fst (load_loop (save_loop tbl i) T) ! k =
        (if i \<le> k \<and> used (tbl ! k) \<noteq> 0 then \<lparr>used = 1, type = type (tbl ! k)\<rparr> else T ! k))"
proof (induction tbl i arbitrary: T rule: save_loop.induct)
  case (1 tbl i)
  show ?case
  proof (cases "i < MAX_INODES")
    case False
    then show ?thesis using "1.prems"
      by (subst (1 2 3) save_loop.simps) (simp add: load_loop.simps [of "[]"])
  next
    case lt: True
    show ?thesis
    proof (cases "used (tbl ! i) = 0")
      case True
      have eq: "save_loop tbl i = save_loop tbl (Suc i)"
        using lt True by (subst save_loop.simps) simp
      have "i \<le> k \<and> used (tbl ! k) \<noteq> 0 \<longleftrightarrow> Suc i \<le> k \<and> used (tbl ! k) \<noteq> 0" for k
        using True by (cases "k = i") auto
      then show ?thesis using "1.IH"(2) [OF lt _ "1.prems"] True unfolding eq by simp
    next
      case False
      have ty: "type (tbl ! i) = CHR ''d'' \<or> type (tbl ! i) = CHR ''f''"
        using valid_typesD [OF "1.prems"(1) lt False] .
      have eq: "save_loop tbl i = enc32 (word_of_nat i) @ type (tbl ! i) # save_loop tbl (Suc i)"
        using lt False by (subst save_loop.simps) simp
      let ?T = "T[i := \<lparr>used = 1, type = type (tbl ! i)\<rparr>]"
      have ld: "load_loop (save_loop tbl i) T = load_loop (save_loop tbl (Suc i)) ?T"
        unfolding eq using lt ty "1.prems" by (intro load_loop_record) simp_all
      have len: "length ?T = MAX_INODES" using "1.prems" by simp
      note IH = "1.IH"(1) [OF lt False "1.prems"(1) len]
      have "(if Suc i \<le> k \<and> used (tbl ! k) \<noteq> 0 then \<lparr>used = 1, type = type (tbl ! k)\<rparr> else ?T ! k)
          = (if i \<le> k \<and> used (tbl ! k) \<noteq> 0 then \<lparr>used = 1, type = type (tbl ! k)\<rparr> else T ! k)"
        if "k < MAX_INODES" for k
        using that False "1.prems" by (cases "k = i") auto
      then show ?thesis using IH unfolding ld by simp
    qed
  qed
qed


lemma used_slots_cong:
  assumes "\<And>k. k < MAX_INODES \<Longrightarrow> used (A ! k) \<noteq> 0 \<longleftrightarrow> used (B ! k) \<noteq> 0"
    and "\<And>k. k < MAX_INODES \<Longrightarrow> used (B ! k) \<noteq> 0 \<Longrightarrow> type (A ! k) = type (B ! k)"
  shows "used_slots A = used_slots B"
proof -
  have f: "filter (\<lambda>i. used (A ! i) \<noteq> 0) [0..<MAX_INODES] = filter (\<lambda>i. used (B ! i) \<noteq> 0) [0..<MAX_INODES]"
    by (rule filter_cong) (use assms(1) in auto)
  show ?thesis unfolding used_slots_def f
    by (rule map_cong) (use assms(2) in auto)
qed

lemma reload_used_slots:
  assumes "valid_types tbl"
  shows "load_loop (save_loop tbl 0) empty_table = (fst (load_loop (save_loop tbl 0) empty_table), [])"
    and "used_slots (fst (load_loop (save_loop tbl 0) empty_table)) = used_slots tbl"
proof -
  have len: "length empty_table = MAX_INODES" by (simp add: empty_table_def)
  note L = load_save_loop [OF assms len, of 0]
  from L show "load_loop (save_loop tbl 0) empty_table = (fst (load_loop (save_loop tbl 0) empty_table), [])"
    by (simp add: prod_eq_iff)
  show "used_slots (fst (load_loop (save_loop tbl 0) empty_table)) = used_slots tbl"
    by (rule used_slots_cong) (use L in \<open>auto simp: empty_table_def\<close>)
qed

lemma save_then_open:
  assumes "fopen_ok fs ''inodes_list'' WB" "fopen_ok fs ''inodes_list'' RB"
  shows "load_inodes_list (fst (save_inodes_list fs tbl)) T = Some (load_loop (save_loop tbl 0) T)"
  using assms
  by (simp add: load_inodes_list_def save_inodes_list_def fopen_wb_def fopen_rb_def fwrite_def)

text \<open>
  Claim C1. For every table of \<^verbatim>\<open>MAX_INODES\<close> slots whose used slots carry the type
  \<^verbatim>\<open>'d'\<close> or \<^verbatim>\<open>'f'\<close>, the bytes that the saving loop writes, read by the loading loop
  into the cleared table, give a table with the same set of (index, type) pairs of used
  slots, and the loading prints nothing. The same holds through the file
  \<^verbatim>\<open>inodes_list\<close> when it can be opened for writing and for reading. The table holds no
  trace of the order in which its slots were marked, so the statement covers every order.
\<close>

theorem save_load_roundtrip:
  assumes "length tbl = MAX_INODES" and "valid_types tbl"
  shows "snd (load_loop (save_loop tbl 0) empty_table) = [] \<and>
         set (used_slots (fst (load_loop (save_loop tbl 0) empty_table))) = set (used_slots tbl) \<and>
         (fopen_ok fs ''inodes_list'' WB \<and> fopen_ok fs ''inodes_list'' RB \<longrightarrow>
            (\<exists>tbl'. load_inodes_list (fst (save_inodes_list fs tbl)) empty_table = Some (tbl', []) \<and>
                    set (used_slots tbl') = set (used_slots tbl)))"
proof -
  note R = reload_used_slots [OF assms(2)]
  from R(1) have "snd (load_loop (save_loop tbl 0) empty_table) = []"
    by (simp add: prod_eq_iff)
  with R show ?thesis by (auto simp: save_then_open)
qed

lemma demo_table_ok: "length demo_table = MAX_INODES" "valid_types demo_table"
  by (auto simp: demo_table_def empty_table_def valid_types_def list_all_iff MAX_INODES_def nth_list_update)

lemma demo_used: "set (used_slots demo_table) = {(0, CHR ''d''), (3, CHR ''d''), (7, CHR ''f'')}"
  by (auto simp: used_slots_def demo_table_def empty_table_def MAX_INODES_def nth_list_update
           split: if_splits)

text \<open>The round trip on the table with the slots 0, 3 and 7 used.\<close>

theorem save_load_roundtrip_witness:
  "length demo_table = MAX_INODES \<and> valid_types demo_table \<and>
   set (used_slots (fst (load_loop (save_loop demo_table 0) empty_table)))
     = {(0, CHR ''d''), (3, CHR ''d''), (7, CHR ''f'')}"
  using save_load_roundtrip [of demo_table] demo_table_ok demo_used by simp

lemma fread_dirent_record:
  "length nm = NAME_LEN \<Longrightarrow>
   fread_dirent (enc32 w @ nm @ rest) = Some (\<lparr>inode = w, name = nm\<rparr>, rest)"
  by (simp add: fread_dirent_def length_enc32 take4_enc32 drop4_enc32 dec32_enc32)

lemma fread_dirent_None: "fread_dirent bs = None \<longleftrightarrow> length bs < 4 + NAME_LEN"
  by (auto simp: fread_dirent_def)

lemma fread_dirent_Some:
  assumes "fread_dirent bs = Some (ent, rest)"
  shows "rest = drop (4 + NAME_LEN) bs" and "length (name ent) = NAME_LEN"
    and "4 + NAME_LEN \<le> length bs"
  using assms by (auto simp: fread_dirent_def add.commute split: if_splits)

lemma fread_dirent_append:
  "fread_dirent bs = Some (ent, rest) \<Longrightarrow> fread_dirent (bs @ cs) = Some (ent, rest @ cs)"
  by (auto simp: fread_dirent_def split: if_splits)

lemma dir_find_loop_eq:
  "dir_find_loop key bs
   = find (\<lambda>e. take NAME_LEN (name e) = take NAME_LEN key) (dir_entries bs)"
proof (induction key bs rule: dir_find_loop.induct)
  case (1 key bs)
  show ?case
  proof (cases "fread_dirent bs")
    case None
    then show ?thesis
      by (simp add: dir_find_loop.simps [of key bs] dir_entries.simps [of bs])
  next
    case (Some p)
    then obtain ent rest where S: "fread_dirent bs = Some (ent, rest)" by (cases p) simp
    show ?thesis using S "1.IH" [OF S refl]
      by (simp add: dir_find_loop.simps [of key bs] dir_entries.simps [of bs])
  qed
qed

lemma dir_entries_Nil [simp]: "dir_entries [] = []"
  by (simp add: dir_entries.simps [of "[]"] fread_dirent_def)

lemma aligned_drop:
  assumes "aligned bs" and "4 + NAME_LEN \<le> length bs"
  shows "aligned (drop (4 + NAME_LEN) bs)"
proof -
  have "length bs mod (4 + NAME_LEN) = (length bs - (4 + NAME_LEN)) mod (4 + NAME_LEN)"
    using assms(2) by (rule le_mod_geq)
  with assms(1) show ?thesis by (simp add: aligned_def)
qed

lemma dir_entries_append:
  "aligned bs \<Longrightarrow> dir_entries (bs @ cs) = dir_entries bs @ dir_entries cs"
proof (induction bs rule: dir_entries.induct)
  case (1 bs)
  show ?case
  proof (cases "fread_dirent bs")
    case None
    then have "length bs < 4 + NAME_LEN" by (simp add: fread_dirent_None)
    with "1.prems" have "bs = []" by (simp add: aligned_def)
    then show ?thesis by simp
  next
    case (Some p)
    then obtain ent rest where E: "fread_dirent bs = Some (ent, rest)" by (cases p) simp
    note S = fread_dirent_Some [OF E]
    have "aligned rest" using "1.prems" S(1) S(3) by (simp add: aligned_drop)
    from "1.IH" [OF E refl this] show ?thesis
      using E fread_dirent_append [OF E, of cs]
      by (simp add: dir_entries.simps [of bs] dir_entries.simps [of "bs @ cs"])
  qed
qed

lemma dir_entries_record:
  "length nm = NAME_LEN \<Longrightarrow> dir_entries (enc32 w @ nm) = [\<lparr>inode = w, name = nm\<rparr>]"
  using fread_dirent_record [of nm w "[]"]
  by (simp add: dir_entries.simps [of "enc32 w @ nm"])

lemma aligned_record: "aligned bs \<Longrightarrow> length nm = NAME_LEN \<Longrightarrow> aligned (bs @ enc32 w @ nm)"
  by (simp add: aligned_def length_enc32)

lemma length_dir_entries: "aligned bs \<Longrightarrow> length bs = (4 + NAME_LEN) * length (dir_entries bs)"
proof (induction bs rule: dir_entries.induct)
  case (1 bs)
  show ?case
  proof (cases "fread_dirent bs")
    case None
    then have "length bs < 4 + NAME_LEN" by (simp add: fread_dirent_None)
    with "1.prems" have "bs = []" by (simp add: aligned_def)
    then show ?thesis by simp
  next
    case (Some p)
    then obtain ent rest where E: "fread_dirent bs = Some (ent, rest)" by (cases p) simp
    note S = fread_dirent_Some [OF E]
    have "aligned rest" using "1.prems" S(1) S(3) by (simp add: aligned_drop)
    from "1.IH" [OF E refl this] show ?thesis
      using E S by (simp add: dir_entries.simps [of bs])
  qed
qed

lemma take_make_name32 [simp]: "take NAME_LEN (make_name32 s) = make_name32 s"
  by (simp add: length_make_name32)

lemma dir_append_eq:
  "dir_append fs d c nm =
     (if fopen_ok fs (inode_fname d) AB
      then Some (fs\<lparr>content := (content fs)(inode_fname d \<mapsto>
                   file_bytes fs (inode_fname d) @ enc32 c @ make_name32 nm)\<rparr>)
      else None)"
  by (auto simp: dir_append_def fopen_ab_def fwrite_def file_bytes_def Let_def
           split: option.splits)

lemma create_dir_inode_eq:
  "create_dir_inode fs n p =
     (if fopen_ok fs (inode_fname n) WB
      then Some (fs\<lparr>content := (content fs)(inode_fname n \<mapsto>
                   enc32 n @ make_name32 ''.'' @ enc32 p @ make_name32 ''..'')\<rparr>)
      else None)"
  by (simp add: create_dir_inode_def fopen_wb_def fwrite_def Let_def)

lemma takeWhile_replicate_NUL: "takeWhile (\<lambda>c. c \<noteq> NUL) (replicate k NUL) = []"
  by (cases k) simp_all

lemma takeWhile_pad: "takeWhile (\<lambda>c. c \<noteq> NUL) (xs @ replicate k NUL) = takeWhile (\<lambda>c. c \<noteq> NUL) xs"
  by (induction xs) (simp_all add: takeWhile_replicate_NUL)

lemma takeWhile_take_cstr:
  "takeWhile (\<lambda>c. c \<noteq> NUL) (take n (cstr s)) = take n (cstr s)"
proof -
  have "\<forall>c \<in> set (take n (cstr s)). c \<noteq> NUL"
  proof
    fix c assume "c \<in> set (take n (cstr s))"
    then have "c \<in> set (takeWhile (\<lambda>c. c \<noteq> NUL) s)"
      unfolding cstr_def by (rule in_set_takeD)
    then show "c \<noteq> NUL" by (rule set_takeWhileD [THEN conjunct2])
  qed
  then show ?thesis by (simp add: takeWhile_eq_all_conv)
qed

lemma cstr_make_name32: "takeWhile (\<lambda>c. c \<noteq> NUL) (make_name32 s) = take NAME_LEN (cstr s)"
  by (simp add: make_name32_eq takeWhile_pad takeWhile_take_cstr)

lemma create_file_inode_eq:
  "create_file_inode fs n nm =
     (if fopen_ok fs (inode_fname n) WB
      then Some (fs\<lparr>content := (content fs)(inode_fname n \<mapsto> take NAME_LEN (cstr nm))\<rparr>)
      else None)"
proof -
  have "take (length (take NAME_LEN (cstr nm))) (make_name32 nm) = take NAME_LEN (cstr nm)"
    by (cases "length (cstr nm) \<le> NAME_LEN") (simp_all add: make_name32_eq min_def)
  then show ?thesis
    by (simp add: create_file_inode_def fopen_wb_def fwrite_def Let_def cstr_make_name32)
qed

lemma find_free_from_cases:
  "(find_free_from tbl i = - 1 \<and> (\<forall>j. i \<le> j \<and> j < MAX_INODES \<longrightarrow> used (tbl ! j) \<noteq> 0)) \<or>
   (\<exists>k. find_free_from tbl i = int k \<and> i \<le> k \<and> k < MAX_INODES \<and> used (tbl ! k) = 0 \<and>
        (\<forall>j. i \<le> j \<and> j < k \<longrightarrow> used (tbl ! j) \<noteq> 0))"
proof (induction tbl i rule: find_free_from.induct)
  case (1 tbl i)
  show ?case
  proof (cases "i < MAX_INODES")
    case False
    then show ?thesis by (simp add: find_free_from.simps [of tbl i])
  next
    case lt: True
    show ?thesis
    proof (cases "used (tbl ! i) = 0")
      case True
      with lt have "find_free_from tbl i = int i" by (simp add: find_free_from.simps [of tbl i])
      with lt True show ?thesis by auto
    next
      case False
      with lt have eq: "find_free_from tbl i = find_free_from tbl (Suc i)"
        by (simp add: find_free_from.simps [of tbl i])
      have step: "used (tbl ! j) \<noteq> 0" if "i \<le> j" "Suc i \<le> j \<longrightarrow> used (tbl ! j) \<noteq> 0" for j
        using that False by (cases "j = i") auto
      from "1.IH" [OF lt False] consider
        (none) "find_free_from tbl (Suc i) = - 1"
               "\<forall>j. Suc i \<le> j \<and> j < MAX_INODES \<longrightarrow> used (tbl ! j) \<noteq> 0"
      | (some) k where "find_free_from tbl (Suc i) = int k" "Suc i \<le> k" "k < MAX_INODES"
               "used (tbl ! k) = 0" "\<forall>j. Suc i \<le> j \<and> j < k \<longrightarrow> used (tbl ! j) \<noteq> 0"
        by blast
      then show ?thesis
      proof cases
        case none
        have "\<forall>j. i \<le> j \<and> j < MAX_INODES \<longrightarrow> used (tbl ! j) \<noteq> 0"
          using none(2) step by blast
        with none(1) show ?thesis unfolding eq by blast
      next
        case some
        have "\<forall>j. i \<le> j \<and> j < k \<longrightarrow> used (tbl ! j) \<noteq> 0"
          using some(5) step by blast
        moreover have "i \<le> k" using some(2) by simp
        ultimately show ?thesis unfolding eq using some(1,3,4) by blast
      qed
    qed
  qed
qed

lemma find_free_inode_none:
  "find_free_inode tbl = - 1 \<longleftrightarrow> (\<forall>j<MAX_INODES. used (tbl ! j) \<noteq> 0)"
  using find_free_from_cases [of tbl 0] by (auto simp: find_free_inode_def)

lemma find_free_inode_neg:
  "find_free_inode tbl < 0 \<longleftrightarrow> (\<forall>j<MAX_INODES. used (tbl ! j) \<noteq> 0)"
  using find_free_from_cases [of tbl 0] by (auto simp: find_free_inode_def)

lemma find_free_inode_first:
  "find_free_inode tbl = int k \<longleftrightarrow>
     k < MAX_INODES \<and> used (tbl ! k) = 0 \<and> (\<forall>j<k. used (tbl ! j) \<noteq> 0)"
proof
  assume "find_free_inode tbl = int k"
  then show "k < MAX_INODES \<and> used (tbl ! k) = 0 \<and> (\<forall>j<k. used (tbl ! j) \<noteq> 0)"
    using find_free_from_cases [of tbl 0] by (auto simp: find_free_inode_def)
next
  assume R: "k < MAX_INODES \<and> used (tbl ! k) = 0 \<and> (\<forall>j<k. used (tbl ! j) \<noteq> 0)"
  from find_free_from_cases [of tbl 0] R obtain k' where
    k': "find_free_inode tbl = int k'" "used (tbl ! k') = 0" "\<forall>j<k'. used (tbl ! j) \<noteq> 0"
    by (auto simp: find_free_inode_def)
  have "\<not> k < k'" using k'(3) R by blast
  moreover have "\<not> k' < k" using k'(2) R by blast
  ultimately have "k' = k" by simp
  with k'(1) show "find_free_inode tbl = int k" by simp
qed

lemma dir_entries_name_length: "e \<in> set (dir_entries bs) \<Longrightarrow> length (name e) = NAME_LEN"
proof (induction bs rule: dir_entries.induct)
  case (1 bs)
  show ?case
  proof (cases "fread_dirent bs")
    case None
    with "1.prems" show ?thesis by (simp add: dir_entries.simps [of bs])
  next
    case (Some p)
    then obtain ent rest where E: "fread_dirent bs = Some (ent, rest)" by (cases p) simp
    from "1.prems" E have "e = ent \<or> e \<in> set (dir_entries rest)"
      by (simp add: dir_entries.simps [of bs])
    then show ?thesis using fread_dirent_Some(2) [OF E] "1.IH" [OF E refl] by blast
  qed
qed

lemma find_name_cong:
  "find (\<lambda>e. take NAME_LEN (name e) = make_name32 nm) (dir_entries bs)
   = find (\<lambda>e. name e = make_name32 nm) (dir_entries bs)"
  by (rule find_cong) (simp_all add: dir_entries_name_length)

lemma dir_find_eq:
  "dir_find fs d nm =
     (case fopen_rb fs (inode_fname d) of
        None \<Rightarrow> None
      | Some bs \<Rightarrow> find (\<lambda>e. name e = make_name32 nm) (dir_entries bs))"
  by (simp add: dir_find_def dir_find_loop_eq find_name_cong split: option.splits)

lemma ls_loop_eq:
  "ls_loop bs
   = map (\<lambda>e. Stdout (decimal (unat (inode e)) @ '' '' @ cstr (name e) @ [newline]))
       (dir_entries bs)"
proof (induction bs rule: ls_loop.induct)
  case (1 bs)
  show ?case
  proof (cases "fread_dirent bs")
    case None
    then show ?thesis by (simp add: ls_loop.simps [of bs] dir_entries.simps [of bs])
  next
    case (Some p)
    then obtain ent rest where E: "fread_dirent bs = Some (ent, rest)" by (cases p) simp
    have "cstr (take NAME_LEN (name ent) @ [NUL]) = cstr (name ent)"
      using fread_dirent_Some(2) [OF E] takeWhile_pad [of "name ent" 1]
      by (simp add: cstr_def)
    then show ?thesis using E "1.IH" [OF E refl refl]
      by (simp add: ls_loop.simps [of bs] dir_entries.simps [of bs])
  qed
qed

lemma InodeInfo_set_both': "(r::InodeInfo)\<lparr>type := b, used := a\<rparr> = \<lparr>used = a, type = b\<rparr>"
  by (cases r) simp

lemma cmd_mkdir_exists:
  "dir_find (storage st) cwd nm \<noteq> None \<Longrightarrow>
   cmd_mkdir st cwd nm = (st, [Stderr (''mkdir: already exists'' @ [newline])])"
  by (simp add: cmd_mkdir_def)

lemma cmd_mkdir_full:
  "dir_find (storage st) cwd nm = None \<Longrightarrow> find_free_inode (inode_table st) < 0 \<Longrightarrow>
   cmd_mkdir st cwd nm = (st, [Stderr (''mkdir: no free inodes'' @ [newline])])"
  by (simp add: cmd_mkdir_def)

lemma cmd_mkdir_alloc:
  assumes "dir_find (storage st) cwd nm = None" and "find_free_inode (inode_table st) = int k"
    and "length (inode_table st) = MAX_INODES"
  shows "cmd_mkdir st cwd nm =
     (case create_dir_inode (storage st) (word_of_nat k) cwd of
        None \<Rightarrow> (\<lparr>inode_table = (inode_table st)[k := \<lparr>used = 0, type = CHR ''d''\<rparr>],
                   storage = storage st\<rparr>, [])
      | Some fs1 \<Rightarrow>
          (case dir_append fs1 cwd (word_of_nat k) nm of
             None \<Rightarrow> (\<lparr>inode_table = (inode_table st)[k := \<lparr>used = 0, type = CHR ''d''\<rparr>],
                        storage = fs1\<rparr>, [])
           | Some fs2 \<Rightarrow> (\<lparr>inode_table = (inode_table st)[k := \<lparr>used = 1, type = CHR ''d''\<rparr>],
                            storage = fs2\<rparr>, [])))"
proof -
  have k: "k < length (inode_table st)"
    using assms(2,3) by (simp add: find_free_inode_first)
  show ?thesis
    using assms(1,2) k
    by (simp add: cmd_mkdir_def Let_def InodeInfo_set_both InodeInfo_set_both' split: option.splits)
qed

lemma cmd_touch_exists:
  "dir_find (storage st) cwd nm \<noteq> None \<Longrightarrow> cmd_touch st cwd nm = (st, [])"
  by (simp add: cmd_touch_def)

lemma cmd_touch_full:
  "dir_find (storage st) cwd nm = None \<Longrightarrow> find_free_inode (inode_table st) < 0 \<Longrightarrow>
   cmd_touch st cwd nm = (st, [Stderr (''touch: no free inodes'' @ [newline])])"
  by (simp add: cmd_touch_def)

lemma cmd_touch_alloc:
  assumes "dir_find (storage st) cwd nm = None" and "find_free_inode (inode_table st) = int k"
    and "length (inode_table st) = MAX_INODES"
  shows "cmd_touch st cwd nm =
     (case create_file_inode (storage st) (word_of_nat k) nm of
        None \<Rightarrow> (\<lparr>inode_table = (inode_table st)[k := \<lparr>used = 0, type = CHR ''f''\<rparr>],
                   storage = storage st\<rparr>, [])
      | Some fs1 \<Rightarrow>
          (case dir_append fs1 cwd (word_of_nat k) nm of
             None \<Rightarrow> (\<lparr>inode_table = (inode_table st)[k := \<lparr>used = 0, type = CHR ''f''\<rparr>],
                        storage = fs1\<rparr>, [])
           | Some fs2 \<Rightarrow> (\<lparr>inode_table = (inode_table st)[k := \<lparr>used = 1, type = CHR ''f''\<rparr>],
                            storage = fs2\<rparr>, [])))"
proof -
  have k: "k < length (inode_table st)"
    using assms(2,3) by (simp add: find_free_inode_first)
  show ?thesis
    using assms(1,2) k
    by (simp add: cmd_touch_def Let_def InodeInfo_set_both InodeInfo_set_both' split: option.splits)
qed

lemma used_slots_free_update:
  assumes "k < MAX_INODES" and "used (tbl ! k) = 0" and "length tbl = MAX_INODES"
  shows "used_slots (tbl[k := \<lparr>used = 0, type = t\<rparr>]) = used_slots tbl"
  by (rule used_slots_cong) (use assms in \<open>auto simp: nth_list_update\<close>)

lemma dir_entries_Cons:
  "dir_entries (dirent_bytes n nm @ rest) = \<lparr>inode = n, name = make_name32 nm\<rparr> # dir_entries rest"
  unfolding dirent_bytes_def append_assoc
  by (subst dir_entries.simps) (simp add: fread_dirent_record length_make_name32)

lemma dir_entries_single:
  "dir_entries (dirent_bytes n nm) = [\<lparr>inode = n, name = make_name32 nm\<rparr>]"
  using dir_entries_Cons [of n nm "[]"] by simp

lemma decimal_small:
  "decimal 0 = ''0''" "decimal 1 = ''1''" "decimal 2 = ''2''" "decimal 3 = ''3''"
  "decimal (Suc 0) = ''1''"
  by code_simp+

lemma inode_fname_0: "inode_fname 0 = ''0''"
  by (simp add: inode_fname_def decimal_small)

lemma make_name32_eq_iff:
  "make_name32 a = make_name32 b \<longleftrightarrow> take NAME_LEN (cstr a) = take NAME_LEN (cstr b)"
proof
  assume "make_name32 a = make_name32 b"
  then have "takeWhile (\<lambda>c. c \<noteq> NUL) (make_name32 a) = takeWhile (\<lambda>c. c \<noteq> NUL) (make_name32 b)"
    by simp
  then show "take NAME_LEN (cstr a) = take NAME_LEN (cstr b)"
    by (simp add: cstr_make_name32)
next
  assume eq: "take NAME_LEN (cstr a) = take NAME_LEN (cstr b)"
  then have "length (take NAME_LEN (cstr a)) = length (take NAME_LEN (cstr b))" by simp
  then have "NAME_LEN - length (cstr a) = NAME_LEN - length (cstr b)"
    by (simp add: min_def split: if_splits)
  with eq show "make_name32 a = make_name32 b" by (simp add: make_name32_eq)
qed

lemma small_entries:
  "dir_entries (the (content (small_fs ok) ''0'')) =
     [\<lparr>inode = 0, name = make_name32 ''.''\<rparr>, \<lparr>inode = 0, name = make_name32 ''..''\<rparr>,
      \<lparr>inode = 1, name = make_name32 ''f''\<rparr>, \<lparr>inode = 2, name = make_name32 ''d''\<rparr>,
      \<lparr>inode = 5, name = make_name32 ''ghost''\<rparr>, \<lparr>inode = 5000, name = make_name32 ''far''\<rparr>]"
  by (simp add: small_fs_def dir_entries_Cons dir_entries_single)

lemma small_dir_find:
  "ok ''0'' RB \<Longrightarrow>
   dir_find (small_fs ok) 0 nm =
     find (\<lambda>e. name e = make_name32 nm)
       [\<lparr>inode = 0, name = make_name32 ''.''\<rparr>, \<lparr>inode = 0, name = make_name32 ''..''\<rparr>,
        \<lparr>inode = 1, name = make_name32 ''f''\<rparr>, \<lparr>inode = 2, name = make_name32 ''d''\<rparr>,
        \<lparr>inode = 5, name = make_name32 ''ghost''\<rparr>, \<lparr>inode = 5000, name = make_name32 ''far''\<rparr>]"
  using small_entries [of ok]
  by (simp add: dir_find_eq fopen_rb_def inode_fname_0 small_fs_def)

lemma small_find_x: "dir_find (small_fs (\<lambda>f m. True)) 0 ''x'' = None"
  by (simp add: small_dir_find make_name32_eq_iff cstr_def NUL_def NAME_LEN_def)

lemma small_find_f: "dir_find (small_fs (\<lambda>f m. True)) 0 ''f'' = Some \<lparr>inode = 1, name = make_name32 ''f''\<rparr>"
  by (simp add: small_dir_find make_name32_eq_iff cstr_def NUL_def NAME_LEN_def)

lemma small_find_d: "dir_find (small_fs (\<lambda>f m. True)) 0 ''d'' = Some \<lparr>inode = 2, name = make_name32 ''d''\<rparr>"
  by (simp add: small_dir_find make_name32_eq_iff cstr_def NUL_def NAME_LEN_def)

lemma small_find_ghost:
  "dir_find (small_fs (\<lambda>f m. True)) 0 ''ghost'' = Some \<lparr>inode = 5, name = make_name32 ''ghost''\<rparr>"
  by (simp add: small_dir_find make_name32_eq_iff cstr_def NUL_def NAME_LEN_def)

lemma small_find_far:
  "dir_find (small_fs (\<lambda>f m. True)) 0 ''far'' = Some \<lparr>inode = 5000, name = make_name32 ''far''\<rparr>"
  by (simp add: small_dir_find make_name32_eq_iff cstr_def NUL_def NAME_LEN_def)

lemma small_table_nth:
  "small_table ! 0 = \<lparr>used = 1, type = CHR ''d''\<rparr>" "small_table ! 1 = \<lparr>used = 1, type = CHR ''f''\<rparr>"
  "small_table ! 2 = \<lparr>used = 1, type = CHR ''d''\<rparr>" "small_table ! 5 = \<lparr>used = 0, type = NUL\<rparr>"
  "small_table ! 3 = \<lparr>used = 0, type = NUL\<rparr>" "length small_table = MAX_INODES"
  "small_table ! Suc 0 = \<lparr>used = 1, type = CHR ''f''\<rparr>"
  by (simp_all add: small_table_def empty_table_def MAX_INODES_def)

text \<open>
  Claim C2. The lookup of \<^verbatim>\<open>cmd_cd\<close> finds the first record of the stream of the current
  directory whose 32 name bytes are the encoded name (nothing when the stream cannot be
  opened). When the lookup finds nothing, \<^verbatim>\<open>cmd_cd\<close> prints \<^verbatim>\<open>cd: no such directory\<close> and
  leaves \<^verbatim>\<open>cwd\<close>; when the entry's inode number is at least \<^verbatim>\<open>MAX_INODES\<close>, or its slot is
  free, or its type is not \<^verbatim>\<open>'d'\<close>, it prints \<^verbatim>\<open>cd: not a directory\<close> and leaves \<^verbatim>\<open>cwd\<close>;
  otherwise \<^verbatim>\<open>cwd\<close> becomes the entry's inode number and nothing is printed.
\<close>

theorem cd_outcomes:
  "dir_find (storage st) cwd nm =
     (case fopen_rb (storage st) (inode_fname cwd) of
        None \<Rightarrow> None
      | Some bs \<Rightarrow> find (\<lambda>e. name e = make_name32 nm) (dir_entries bs)) \<and>
   (dir_find (storage st) cwd nm = None \<longrightarrow>
      cmd_cd st cwd nm = (cwd, [Stderr (''cd: no such directory'' @ [newline])])) \<and>
   (\<forall>ent. dir_find (storage st) cwd nm = Some ent \<longrightarrow>
      (unat (inode ent) \<ge> MAX_INODES \<or> used (inode_table st ! unat (inode ent)) = 0 \<or>
       type (inode_table st ! unat (inode ent)) \<noteq> CHR ''d'' \<longrightarrow>
         cmd_cd st cwd nm = (cwd, [Stderr (''cd: not a directory'' @ [newline])])) \<and>
      (unat (inode ent) < MAX_INODES \<and> used (inode_table st ! unat (inode ent)) \<noteq> 0 \<and>
       type (inode_table st ! unat (inode ent)) = CHR ''d'' \<longrightarrow>
         cmd_cd st cwd nm = (inode ent, [])))"
proof (intro conjI allI impI)
  show "dir_find (storage st) cwd nm =
     (case fopen_rb (storage st) (inode_fname cwd) of
        None \<Rightarrow> None
      | Some bs \<Rightarrow> find (\<lambda>e. name e = make_name32 nm) (dir_entries bs))"
    by (rule dir_find_eq)
qed (auto simp: cmd_cd_def)

text \<open>
  In the small storage root, from the root directory: a missing name, a file, a free slot
  and an inode number out of range leave \<^verbatim>\<open>cwd = 0\<close> with the two diagnostics, and the
  directory \<^verbatim>\<open>d\<close> becomes the current directory.
\<close>

theorem cd_outcomes_witness:
  "cmd_cd (small_state (\<lambda>f m. True)) 0 ''x'' = (0, [Stderr (''cd: no such directory'' @ [newline])]) \<and>
   cmd_cd (small_state (\<lambda>f m. True)) 0 ''f'' = (0, [Stderr (''cd: not a directory'' @ [newline])]) \<and>
   cmd_cd (small_state (\<lambda>f m. True)) 0 ''ghost'' = (0, [Stderr (''cd: not a directory'' @ [newline])]) \<and>
   cmd_cd (small_state (\<lambda>f m. True)) 0 ''far'' = (0, [Stderr (''cd: not a directory'' @ [newline])]) \<and>
   cmd_cd (small_state (\<lambda>f m. True)) 0 ''d'' = (2, [])"
  using cd_outcomes [of "small_state (\<lambda>f m. True)" 0 "''x''"]
    cd_outcomes [of "small_state (\<lambda>f m. True)" 0 "''f''"]
    cd_outcomes [of "small_state (\<lambda>f m. True)" 0 "''ghost''"]
    cd_outcomes [of "small_state (\<lambda>f m. True)" 0 "''far''"]
    cd_outcomes [of "small_state (\<lambda>f m. True)" 0 "''d''"]
  by (simp add: small_state_def small_find_x small_find_f small_find_d small_find_ghost
        small_find_far small_table_nth MAX_INODES_def)

subsection \<open>Allocation\<close>

text \<open>
  Claim C8. \<^verbatim>\<open>find_free_inode\<close> returns the least index of a free slot, and \<open>-1\<close> exactly
  when the \<^verbatim>\<open>MAX_INODES\<close> slots are all used; then \<^verbatim>\<open>cmd_mkdir\<close> of a name that is not in
  the current directory prints \<^verbatim>\<open>mkdir: no free inodes\<close> and returns the state as it was.
\<close>

theorem find_free_inode_first_free:
  assumes "length tbl = MAX_INODES"
  shows "(find_free_inode tbl = - 1 \<longleftrightarrow> (\<forall>j<MAX_INODES. used (tbl ! j) \<noteq> 0)) \<and>
         (\<forall>k. find_free_inode tbl = int k \<longleftrightarrow>
                k < MAX_INODES \<and> used (tbl ! k) = 0 \<and> (\<forall>j<k. used (tbl ! j) \<noteq> 0)) \<and>
         (find_free_inode tbl = - 1 \<or> (\<exists>k<MAX_INODES. find_free_inode tbl = int k)) \<and>
         ((\<forall>j<MAX_INODES. used (tbl ! j) \<noteq> 0) \<and> inode_table st = tbl \<and>
          dir_find (storage st) cwd nm = None \<longrightarrow>
            cmd_mkdir st cwd nm = (st, [Stderr (''mkdir: no free inodes'' @ [newline])]))"
proof (intro conjI allI impI)
  show "find_free_inode tbl = - 1 \<longleftrightarrow> (\<forall>j<MAX_INODES. used (tbl ! j) \<noteq> 0)"
    by (rule find_free_inode_none)
  show "find_free_inode tbl = int k \<longleftrightarrow>
          k < MAX_INODES \<and> used (tbl ! k) = 0 \<and> (\<forall>j<k. used (tbl ! j) \<noteq> 0)" for k
    by (rule find_free_inode_first)
  show "find_free_inode tbl = - 1 \<or> (\<exists>k<MAX_INODES. find_free_inode tbl = int k)"
    using find_free_from_cases [of tbl 0] by (auto simp: find_free_inode_def)
  assume "(\<forall>j<MAX_INODES. used (tbl ! j) \<noteq> 0) \<and> inode_table st = tbl \<and>
          dir_find (storage st) cwd nm = None"
  then show "cmd_mkdir st cwd nm = (st, [Stderr (''mkdir: no free inodes'' @ [newline])])"
    by (simp add: cmd_mkdir_full find_free_inode_neg)
qed

lemma small_find_x_ok: "ok ''0'' RB \<Longrightarrow> dir_find (small_fs ok) 0 ''x'' = None"
  by (simp add: small_dir_find make_name32_eq_iff cstr_def NUL_def NAME_LEN_def)

lemma small_free: "find_free_inode small_table = int 3"
  unfolding find_free_inode_first
  by (auto simp: small_table_def empty_table_def MAX_INODES_def nth_list_update less_Suc_eq
        numeral_3_eq_3)

lemma full_table_used: "length full_table = MAX_INODES" "\<forall>j<MAX_INODES. used (full_table ! j) \<noteq> 0"
  by (simp_all add: full_table_def)

text \<open>The full table has no free slot, the small table has slot 3 as its first free one.\<close>

theorem find_free_inode_first_free_witness:
  "length full_table = MAX_INODES \<and> find_free_inode full_table = - 1 \<and>
   find_free_inode small_table = 3 \<and>
   cmd_mkdir \<lparr>inode_table = full_table, storage = small_fs all_ok\<rparr> 0 ''x''
     = (\<lparr>inode_table = full_table, storage = small_fs all_ok\<rparr>,
        [Stderr (''mkdir: no free inodes'' @ [newline])])"
  using find_free_inode_first_free [OF full_table_used(1),
          of "\<lparr>inode_table = full_table, storage = small_fs all_ok\<rparr>" 0 "''x''"]
    find_free_inode_first_free [OF small_table_nth(6)]
    full_table_used small_free
  by (simp add: small_find_x_ok all_ok_def)

subsection \<open>Failed creations\<close>

text \<open>
  Claim C5. When \<^verbatim>\<open>cmd_mkdir\<close> or \<^verbatim>\<open>cmd_touch\<close> has allocated the slot \<open>k\<close> and the
  creation of the backing stream fails, or the creation succeeds and the append to the
  parent directory fails, the slot \<open>k\<close> is free in the table returned and the used slots
  are those of the table before; when the creation fails the storage is unchanged, so
  nothing was appended to the parent directory.
\<close>

theorem creation_failure_rollback:
  assumes "length (inode_table st) = MAX_INODES"
    and "dir_find (storage st) cwd nm = None"
    and "find_free_inode (inode_table st) = int k"
  shows "(create_dir_inode (storage st) (word_of_nat k) cwd = None \<longrightarrow>
            used (inode_table (fst (cmd_mkdir st cwd nm)) ! k) = 0 \<and>
            used_slots (inode_table (fst (cmd_mkdir st cwd nm))) = used_slots (inode_table st) \<and>
            storage (fst (cmd_mkdir st cwd nm)) = storage st) \<and>
         (\<forall>fs1. create_dir_inode (storage st) (word_of_nat k) cwd = Some fs1 \<and>
                dir_append fs1 cwd (word_of_nat k) nm = None \<longrightarrow>
            used (inode_table (fst (cmd_mkdir st cwd nm)) ! k) = 0 \<and>
            used_slots (inode_table (fst (cmd_mkdir st cwd nm))) = used_slots (inode_table st)) \<and>
         (create_file_inode (storage st) (word_of_nat k) nm = None \<longrightarrow>
            used (inode_table (fst (cmd_touch st cwd nm)) ! k) = 0 \<and>
            used_slots (inode_table (fst (cmd_touch st cwd nm))) = used_slots (inode_table st) \<and>
            storage (fst (cmd_touch st cwd nm)) = storage st) \<and>
         (\<forall>fs1. create_file_inode (storage st) (word_of_nat k) nm = Some fs1 \<and>
                dir_append fs1 cwd (word_of_nat k) nm = None \<longrightarrow>
            used (inode_table (fst (cmd_touch st cwd nm)) ! k) = 0 \<and>
            used_slots (inode_table (fst (cmd_touch st cwd nm))) = used_slots (inode_table st))"
proof -
  from assms(3) have k: "k < MAX_INODES" "used (inode_table st ! k) = 0"
    by (simp_all add: find_free_inode_first)
  note U = used_slots_free_update [OF k assms(1)]
  have n: "(inode_table st)[k := v] ! k = v" for v using k(1) assms(1) by simp
  show ?thesis
    by (simp add: cmd_mkdir_alloc [OF assms(2,3,1)] cmd_touch_alloc [OF assms(2,3,1)] U n)
qed

lemma inode_fname_3: "inode_fname 3 = ''3''"
  by (simp add: inode_fname_def decimal_small)

text \<open>
  In the small state slot 3 is allocated. When the file \<^verbatim>\<open>3\<close> cannot be created, and when
  the root directory cannot be opened for appending, slot 3 is free afterwards.
\<close>

theorem creation_failure_rollback_witness:
  "used (inode_table (fst (cmd_mkdir (small_state no_create3) 0 ''x'')) ! 3) = 0 \<and>
   storage (fst (cmd_mkdir (small_state no_create3) 0 ''x'')) = small_fs no_create3 \<and>
   used (inode_table (fst (cmd_mkdir (small_state no_append0) 0 ''x'')) ! 3) = 0 \<and>
   used (inode_table (fst (cmd_touch (small_state no_create3) 0 ''x'')) ! 3) = 0 \<and>
   storage (fst (cmd_touch (small_state no_create3) 0 ''x'')) = small_fs no_create3 \<and>
   used (inode_table (fst (cmd_touch (small_state no_append0) 0 ''x'')) ! 3) = 0"
proof -
  have a: "length (inode_table (small_state ok)) = MAX_INODES" for ok
    by (simp add: small_state_def small_table_nth)
  have b: "dir_find (storage (small_state no_create3)) 0 ''x'' = None"
    "dir_find (storage (small_state no_append0)) 0 ''x'' = None"
    by (simp_all add: small_state_def small_find_x_ok no_create3_def no_append0_def)
  have c: "find_free_inode (inode_table (small_state ok)) = int 3" for ok
    by (simp add: small_state_def small_free)
  have d: "create_dir_inode (storage (small_state no_create3)) (word_of_nat 3) 0 = None"
    "create_file_inode (storage (small_state no_create3)) (word_of_nat 3) ''x'' = None"
    by (simp_all add: small_state_def small_fs_def create_dir_inode_eq create_file_inode_eq
          inode_fname_3 no_create3_def)
  have e: "\<exists>fs1. create_dir_inode (storage (small_state no_append0)) (word_of_nat 3) 0 = Some fs1 \<and>
                 dir_append fs1 0 (word_of_nat 3) ''x'' = None"
    "\<exists>fs1. create_file_inode (storage (small_state no_append0)) (word_of_nat 3) ''x'' = Some fs1 \<and>
           dir_append fs1 0 (word_of_nat 3) ''x'' = None"
    by (simp_all add: small_state_def small_fs_def create_dir_inode_eq create_file_inode_eq
          dir_append_eq inode_fname_3 inode_fname_0 no_append0_def)
  from creation_failure_rollback [OF a b(1) c] d
    creation_failure_rollback [OF a b(2) c] e
  show ?thesis by (auto simp: small_state_def)
qed

subsection \<open>Successful creations\<close>

lemma free_slot_not_cwd:
  assumes "cwd_ok tbl cwd" and "find_free_inode tbl = int k"
  shows "inode_fname (word_of_nat k) \<noteq> inode_fname cwd" and "unat (word_of_nat k :: u32) = k"
proof -
  from assms(2) have k: "k < MAX_INODES" "used (tbl ! k) = 0"
    by (simp_all add: find_free_inode_first)
  show u: "unat (word_of_nat k :: u32) = k" using k(1) by (rule unat_slot)
  have "word_of_nat k \<noteq> cwd"
  proof
    assume "word_of_nat k = cwd"
    then have "unat cwd = k" using u by simp
    with assms(1) k(2) show False by (simp add: cwd_ok_def)
  qed
  then show "inode_fname (word_of_nat k) \<noteq> inode_fname cwd" by (simp add: inode_fname_inj)
qed

lemma dir_find_bytes:
  "fopen_ok fs (inode_fname d) RB \<Longrightarrow>
   dir_find fs d q = find (\<lambda>e. name e = make_name32 q) (dir_entries (file_bytes fs (inode_fname d)))"
  by (simp add: dir_find_eq fopen_rb_def file_bytes_def split: option.splits)

lemma aligned_dirent: "aligned (dirent_bytes n nm)"
  by (simp add: aligned_def dirent_bytes_def length_enc32 length_make_name32)

lemma find_append_one:
  "find P (xs @ [e]) = (case find P xs of Some y \<Rightarrow> Some y | None \<Rightarrow> if P e then Some e else None)"
  by (induction xs) auto

lemma dir_find_appended:
  assumes "fopen_ok fs' (inode_fname d) RB"
    and "content fs' (inode_fname d) = Some (old @ dirent_bytes c nm)"
    and "aligned old"
  shows "dir_find fs' d q =
     (case find (\<lambda>e. name e = make_name32 q) (dir_entries old) of
        Some y \<Rightarrow> Some y
      | None \<Rightarrow> if make_name32 q = make_name32 nm
                then Some \<lparr>inode = c, name = make_name32 nm\<rparr> else None)"
proof -
  have "file_bytes fs' (inode_fname d) = old @ dirent_bytes c nm"
    using assms(2) by (simp add: file_bytes_def)
  then show ?thesis
    using dir_find_bytes [OF assms(1), of q]
    by (auto simp: dir_entries_append [OF assms(3)] dir_entries_single find_append_one
          split: option.splits)
qed

lemma cmd_mkdir_success:
  assumes len: "length (inode_table st) = MAX_INODES"
    and cwd: "cwd_ok (inode_table st) cwd"
    and none: "dir_find (storage st) cwd nm = None"
    and free: "find_free_inode (inode_table st) = int k"
    and wb: "fopen_ok (storage st) (inode_fname (word_of_nat k)) WB"
    and ab: "fopen_ok (storage st) (inode_fname cwd) AB"
  shows "cmd_mkdir st cwd nm =
     (\<lparr>inode_table = (inode_table st)[k := \<lparr>used = 1, type = CHR ''d''\<rparr>],
       storage = (storage st)\<lparr>content := (content (storage st))
          (inode_fname (word_of_nat k) \<mapsto> dirent_bytes (word_of_nat k) ''.'' @ dirent_bytes cwd ''..'',
           inode_fname cwd \<mapsto> file_bytes (storage st) (inode_fname cwd)
                                @ dirent_bytes (word_of_nat k) nm)\<rparr>\<rparr>, [])"
  using free_slot_not_cwd(1) [OF cwd free] wb ab
  by (simp add: cmd_mkdir_alloc [OF none free len] create_dir_inode_eq dir_append_eq
        file_bytes_def dirent_bytes_def)

lemma cmd_touch_success:
  assumes len: "length (inode_table st) = MAX_INODES"
    and cwd: "cwd_ok (inode_table st) cwd"
    and none: "dir_find (storage st) cwd nm = None"
    and free: "find_free_inode (inode_table st) = int k"
    and wb: "fopen_ok (storage st) (inode_fname (word_of_nat k)) WB"
    and ab: "fopen_ok (storage st) (inode_fname cwd) AB"
  shows "cmd_touch st cwd nm =
     (\<lparr>inode_table = (inode_table st)[k := \<lparr>used = 1, type = CHR ''f''\<rparr>],
       storage = (storage st)\<lparr>content := (content (storage st))
          (inode_fname (word_of_nat k) \<mapsto> take NAME_LEN (cstr nm),
           inode_fname cwd \<mapsto> file_bytes (storage st) (inode_fname cwd)
                                @ dirent_bytes (word_of_nat k) nm)\<rparr>\<rparr>, [])"
  using free_slot_not_cwd(1) [OF cwd free] wb ab
  by (simp add: cmd_touch_alloc [OF none free len] create_file_inode_eq dir_append_eq
        file_bytes_def dirent_bytes_def)

lemma dir_find_after_create:
  assumes rd: "fopen_ok fs (inode_fname d) RB"
    and al: "aligned (file_bytes fs (inode_fname d))"
    and none: "dir_find fs d nm = None"
    and ne: "f \<noteq> inode_fname d"
  shows "dir_find (fs\<lparr>content := (content fs)(f \<mapsto> bs,
            inode_fname d \<mapsto> file_bytes fs (inode_fname d) @ dirent_bytes c nm)\<rparr>) d q =
     (if make_name32 q = make_name32 nm then Some \<lparr>inode = c, name = make_name32 nm\<rparr>
      else dir_find fs d q)"
proof -
  let ?fs' = "fs\<lparr>content := (content fs)(f \<mapsto> bs,
            inode_fname d \<mapsto> file_bytes fs (inode_fname d) @ dirent_bytes c nm)\<rparr>"
  have 1: "fopen_ok ?fs' (inode_fname d) RB" using rd by simp
  have 2: "content ?fs' (inode_fname d) = Some (file_bytes fs (inode_fname d) @ dirent_bytes c nm)"
    by simp
  have n: "find (\<lambda>e. name e = make_name32 nm) (dir_entries (file_bytes fs (inode_fname d))) = None"
    using none dir_find_bytes [OF rd, of nm] by simp
  show ?thesis
    unfolding dir_find_appended [OF 1 2 al] dir_find_bytes [OF rd]
    using n by (auto split: option.splits)
qed

lemma cstr_dot: "cstr (make_name32 ''.'') = ''.''" "cstr (make_name32 ''..'') = ''..''"
  by (simp_all add: cstr_def [of "make_name32 _"] cstr_make_name32)
     (simp_all add: cstr_def NUL_def NAME_LEN_def)

lemma self_link_entries:
  "dir_entries (enc32 n @ make_name32 ''.'' @ enc32 p @ make_name32 ''..'')
   = [\<lparr>inode = n, name = make_name32 ''.''\<rparr>, \<lparr>inode = p, name = make_name32 ''..''\<rparr>]"
  using dir_entries_Cons [of n "''.''" "dirent_bytes p ''..''"] dir_entries_single [of p "''..''"]
  by (simp add: dirent_bytes_def)

text \<open>
  Claim C3. When \<^verbatim>\<open>cmd_mkdir\<close> of a name that is not in the current directory allocates
  the slot \<open>k\<close> and both \<^verbatim>\<open>create_dir_inode\<close> and \<^verbatim>\<open>dir_append\<close> succeed, the backing stream
  of the inode \<open>k\<close> holds exactly two records, in this order: \<open>k\<close> with the 32-byte name of
  \<^verbatim>\<open>.\<close> and the current directory with the 32-byte name of \<^verbatim>\<open>..\<close>. And when the streams of
  the current directory (made of whole records) and of \<open>k\<close> can be read, \<^verbatim>\<open>cmd_cd\<close> of the
  name then moves to \<open>k\<close> and \<^verbatim>\<open>cmd_ls\<close> there prints these two entries and nothing else.
  The root directory is the case \<open>cwd = 0\<close>.
\<close>

theorem mkdir_self_links:
  assumes len: "length (inode_table st) = MAX_INODES"
    and cwd: "cwd_ok (inode_table st) cwd"
    and none: "dir_find (storage st) cwd nm = None"
    and free: "find_free_inode (inode_table st) = int k"
    and cr: "create_dir_inode (storage st) (word_of_nat k) cwd = Some fs1"
    and ap: "dir_append fs1 cwd (word_of_nat k) nm = Some fs2"
  shows "cmd_mkdir st cwd nm =
           (\<lparr>inode_table = (inode_table st)[k := \<lparr>used = 1, type = CHR ''d''\<rparr>], storage = fs2\<rparr>, []) \<and>
         content fs2 (inode_fname (word_of_nat k))
           = Some (enc32 (word_of_nat k) @ make_name32 ''.'' @ enc32 cwd @ make_name32 ''..'') \<and>
         dir_entries (enc32 (word_of_nat k) @ make_name32 ''.'' @ enc32 cwd @ make_name32 ''..'')
           = [\<lparr>inode = word_of_nat k, name = make_name32 ''.''\<rparr>,
              \<lparr>inode = cwd, name = make_name32 ''..''\<rparr>] \<and>
         (fopen_ok (storage st) (inode_fname cwd) RB \<and>
          aligned (file_bytes (storage st) (inode_fname cwd)) \<and>
          fopen_ok (storage st) (inode_fname (word_of_nat k)) RB \<longrightarrow>
            cmd_cd (fst (cmd_mkdir st cwd nm)) cwd nm = (word_of_nat k, []) \<and>
            cmd_ls (fst (cmd_mkdir st cwd nm)) (word_of_nat k)
              = [Stdout (decimal k @ '' .'' @ [newline]),
                 Stdout (decimal (unat cwd) @ '' ..'' @ [newline])])"
proof -
  from cr have wb: "fopen_ok (storage st) (inode_fname (word_of_nat k)) WB"
    and fs1: "fs1 = (storage st)\<lparr>content := (content (storage st))
        (inode_fname (word_of_nat k) \<mapsto> enc32 (word_of_nat k) @ make_name32 ''.''
                                             @ enc32 cwd @ make_name32 ''..'')\<rparr>"
    by (auto simp: create_dir_inode_eq split: if_splits)
  from ap fs1 have ab: "fopen_ok (storage st) (inode_fname cwd) AB"
    by (auto simp: dir_append_eq split: if_splits)
  note ne = free_slot_not_cwd(1) [OF cwd free] and un = free_slot_not_cwd(2) [OF cwd free]
  note S = cmd_mkdir_success [OF len cwd none free wb ab]
  from free len have k: "k < length (inode_table st)" by (simp add: find_free_inode_first)
  have m: "cmd_mkdir st cwd nm =
      (\<lparr>inode_table = (inode_table st)[k := \<lparr>used = 1, type = CHR ''d''\<rparr>], storage = fs2\<rparr>, [])"
    using cr ap by (simp add: cmd_mkdir_alloc [OF none free len])
  have c: "content fs2 (inode_fname (word_of_nat k))
      = Some (enc32 (word_of_nat k) @ make_name32 ''.'' @ enc32 cwd @ make_name32 ''..'')"
    using S m ne by (simp add: dirent_bytes_def)
  have "cmd_cd (fst (cmd_mkdir st cwd nm)) cwd nm = (word_of_nat k, []) \<and>
        cmd_ls (fst (cmd_mkdir st cwd nm)) (word_of_nat k)
          = [Stdout (decimal k @ '' .'' @ [newline]),
             Stdout (decimal (unat cwd) @ '' ..'' @ [newline])]"
    if rd: "fopen_ok (storage st) (inode_fname cwd) RB"
      and al: "aligned (file_bytes (storage st) (inode_fname cwd))"
      and rk: "fopen_ok (storage st) (inode_fname (word_of_nat k)) RB"
  proof -
    have f: "dir_find (storage (fst (cmd_mkdir st cwd nm))) cwd nm
               = Some \<lparr>inode = word_of_nat k, name = make_name32 nm\<rparr>"
      unfolding S using dir_find_after_create [OF rd al none ne, of _ _ nm] by simp
    have cd: "cmd_cd (fst (cmd_mkdir st cwd nm)) cwd nm = (word_of_nat k, [])"
      using f k free
      by (simp add: cmd_cd_def un) (simp add: m find_free_inode_first)
    have ls: "cmd_ls (fst (cmd_mkdir st cwd nm)) (word_of_nat k)
          = [Stdout (decimal k @ '' .'' @ [newline]),
             Stdout (decimal (unat cwd) @ '' ..'' @ [newline])]"
      using rk ne
      by (simp add: cmd_ls_def S fopen_rb_def ls_loop_eq dirent_bytes_def self_link_entries
            cstr_dot un)
    from cd ls show ?thesis by simp
  qed
  with m c self_link_entries show ?thesis by blast
qed

lemma small_aligned: "aligned (file_bytes (small_fs ok) ''0'')"
  by (simp add: aligned_def file_bytes_def small_fs_def dirent_bytes_def length_enc32
        length_make_name32 NAME_LEN_def)

lemma small_cwd_ok: "cwd_ok small_table 0"
  by (simp add: cwd_ok_def small_table_nth MAX_INODES_def)

text \<open>
  From the root of the small state, \<^verbatim>\<open>mkdir x\<close> takes slot 3; \<^verbatim>\<open>cd x\<close> then leads to it and
  \<^verbatim>\<open>ls\<close> prints its two entries.
\<close>

theorem mkdir_self_links_witness:
  "cmd_cd (fst (cmd_mkdir (small_state all_ok) 0 ''x'')) 0 ''x'' = (3, []) \<and>
   cmd_ls (fst (cmd_mkdir (small_state all_ok) 0 ''x'')) 3
     = [Stdout (''3 .'' @ [newline]), Stdout (''0 ..'' @ [newline])] \<and>
   content (storage (fst (cmd_mkdir (small_state all_ok) 0 ''x''))) ''3''
     = Some (enc32 3 @ make_name32 ''.'' @ enc32 0 @ make_name32 ''..'')"
proof -
  let ?st = "small_state all_ok"
  have len: "length (inode_table ?st) = MAX_INODES" by (simp add: small_state_def small_table_nth)
  have cwd: "cwd_ok (inode_table ?st) 0" by (simp add: small_state_def small_cwd_ok)
  have none: "dir_find (storage ?st) 0 ''x'' = None"
    by (simp add: small_state_def small_find_x_ok all_ok_def)
  have free: "find_free_inode (inode_table ?st) = int 3" by (simp add: small_state_def small_free)
  obtain fs1 where cr: "create_dir_inode (storage ?st) (word_of_nat 3) 0 = Some fs1"
    by (simp add: create_dir_inode_eq small_state_def small_fs_def all_ok_def)
  obtain fs2 where ap: "dir_append fs1 0 (word_of_nat 3) ''x'' = Some fs2"
    using cr by (auto simp: create_dir_inode_eq dir_append_eq small_state_def small_fs_def all_ok_def)
  have rd: "fopen_ok (storage ?st) (inode_fname 0) RB \<and>
          aligned (file_bytes (storage ?st) (inode_fname 0)) \<and>
          fopen_ok (storage ?st) (inode_fname (word_of_nat 3)) RB"
    by (simp add: small_state_def small_aligned inode_fname_0) (simp add: small_fs_def all_ok_def)
  note T = mkdir_self_links [OF len cwd none free cr ap]
  from T rd have "cmd_cd (fst (cmd_mkdir ?st 0 ''x'')) 0 ''x'' = (word_of_nat 3, []) \<and>
      cmd_ls (fst (cmd_mkdir ?st 0 ''x'')) (word_of_nat 3)
        = [Stdout (decimal 3 @ '' .'' @ [newline]), Stdout (decimal (unat (0::u32)) @ '' ..'' @ [newline])]"
    by blast
  moreover from T have "content (storage (fst (cmd_mkdir ?st 0 ''x''))) (inode_fname (word_of_nat 3))
      = Some (enc32 (word_of_nat 3) @ make_name32 ''.'' @ enc32 0 @ make_name32 ''..'')"
    by simp
  ultimately show ?thesis by (simp add: inode_fname_3 decimal_small)
qed

lemma find_None_filter: "find P xs = None \<Longrightarrow> filter P xs = []"
  by (induction xs) (auto split: if_splits)

lemma touch_created_state:
  assumes len: "length (inode_table st) = MAX_INODES"
    and cwd: "cwd_ok (inode_table st) cwd"
    and rd: "fopen_ok (storage st) (inode_fname cwd) RB"
    and al: "aligned (file_bytes (storage st) (inode_fname cwd))"
    and none: "dir_find (storage st) cwd nm = None"
    and free: "find_free_inode (inode_table st) = int k"
    and cr: "create_file_inode (storage st) (word_of_nat k) nm = Some fs1"
    and ap: "dir_append fs1 cwd (word_of_nat k) nm = Some fs2"
  shows "cmd_touch st cwd nm =
           (\<lparr>inode_table = (inode_table st)[k := \<lparr>used = 1, type = CHR ''f''\<rparr>], storage = fs2\<rparr>, [])"
    and "dir_find fs2 cwd q =
           (if make_name32 q = make_name32 nm
            then Some \<lparr>inode = word_of_nat k, name = make_name32 nm\<rparr>
            else dir_find (storage st) cwd q)"
    and "filter (\<lambda>e. name e = make_name32 nm) (dir_entries (file_bytes fs2 (inode_fname cwd)))
           = [\<lparr>inode = word_of_nat k, name = make_name32 nm\<rparr>]"
proof -
  from cr have wb: "fopen_ok (storage st) (inode_fname (word_of_nat k)) WB"
    and fs1: "fs1 = (storage st)\<lparr>content := (content (storage st))
        (inode_fname (word_of_nat k) \<mapsto> take NAME_LEN (cstr nm))\<rparr>"
    by (auto simp: create_file_inode_eq split: if_splits)
  from ap fs1 have ab: "fopen_ok (storage st) (inode_fname cwd) AB"
    by (auto simp: dir_append_eq split: if_splits)
  note ne = free_slot_not_cwd(1) [OF cwd free]
  note S = cmd_touch_success [OF len cwd none free wb ab]
  show m: "cmd_touch st cwd nm =
      (\<lparr>inode_table = (inode_table st)[k := \<lparr>used = 1, type = CHR ''f''\<rparr>], storage = fs2\<rparr>, [])"
    using cr ap by (simp add: cmd_touch_alloc [OF none free len])
  from S m have fs2: "fs2 = (storage st)\<lparr>content := (content (storage st))
          (inode_fname (word_of_nat k) \<mapsto> take NAME_LEN (cstr nm),
           inode_fname cwd \<mapsto> file_bytes (storage st) (inode_fname cwd)
                                @ dirent_bytes (word_of_nat k) nm)\<rparr>"
    by simp
  show "dir_find fs2 cwd q =
           (if make_name32 q = make_name32 nm
            then Some \<lparr>inode = word_of_nat k, name = make_name32 nm\<rparr>
            else dir_find (storage st) cwd q)"
    unfolding fs2 by (rule dir_find_after_create [OF rd al none ne])
  have "find (\<lambda>e. name e = make_name32 nm) (dir_entries (file_bytes (storage st) (inode_fname cwd))) = None"
    using none dir_find_bytes [OF rd, of nm] by simp
  then have "filter (\<lambda>e. name e = make_name32 nm) (dir_entries (file_bytes (storage st) (inode_fname cwd))) = []"
    by (rule find_None_filter)
  moreover have fb: "file_bytes fs2 (inode_fname cwd)
      = file_bytes (storage st) (inode_fname cwd) @ dirent_bytes (word_of_nat k) nm"
    unfolding fs2 by (simp add: file_bytes_def)
  ultimately show "filter (\<lambda>e. name e = make_name32 nm) (dir_entries (file_bytes fs2 (inode_fname cwd)))
           = [\<lparr>inode = word_of_nat k, name = make_name32 nm\<rparr>]"
    by (simp add: fb dir_entries_append [OF al] dir_entries_single)
qed

subsection \<open>Creating a name twice\<close>

text \<open>
  Claim C4. When the lookup of the encoded name in the current directory finds an entry,
  \<^verbatim>\<open>cmd_touch\<close> prints nothing and returns the state as it was: no slot is allocated, no
  stream is created, nothing is appended. Hence, when a first \<^verbatim>\<open>cmd_touch\<close> of a name that
  is not in the directory (a readable stream of whole records) creates its inode and
  appends its entry, a second \<^verbatim>\<open>cmd_touch\<close> of the name changes nothing, and the directory
  holds exactly one entry with that name.
\<close>

theorem touch_idempotent:
  "(dir_find (storage st) cwd nm \<noteq> None \<longrightarrow> cmd_touch st cwd nm = (st, [])) \<and>
   (length (inode_table st) = MAX_INODES \<and> cwd_ok (inode_table st) cwd \<and>
    fopen_ok (storage st) (inode_fname cwd) RB \<and>
    aligned (file_bytes (storage st) (inode_fname cwd)) \<and>
    dir_find (storage st) cwd nm = None \<and> find_free_inode (inode_table st) = int k \<and>
    create_file_inode (storage st) (word_of_nat k) nm = Some fs1 \<and>
    dir_append fs1 cwd (word_of_nat k) nm = Some fs2 \<longrightarrow>
      cmd_touch (fst (cmd_touch st cwd nm)) cwd nm = (fst (cmd_touch st cwd nm), []) \<and>
      filter (\<lambda>e. name e = make_name32 nm)
        (dir_entries (file_bytes (storage (fst (cmd_touch (fst (cmd_touch st cwd nm)) cwd nm)))
                        (inode_fname cwd)))
        = [\<lparr>inode = word_of_nat k, name = make_name32 nm\<rparr>])"
proof (intro conjI impI)
  assume "dir_find (storage st) cwd nm \<noteq> None"
  then show "cmd_touch st cwd nm = (st, [])" by (rule cmd_touch_exists)
next
  assume A: "length (inode_table st) = MAX_INODES \<and> cwd_ok (inode_table st) cwd \<and>
    fopen_ok (storage st) (inode_fname cwd) RB \<and>
    aligned (file_bytes (storage st) (inode_fname cwd)) \<and>
    dir_find (storage st) cwd nm = None \<and> find_free_inode (inode_table st) = int k \<and>
    create_file_inode (storage st) (word_of_nat k) nm = Some fs1 \<and>
    dir_append fs1 cwd (word_of_nat k) nm = Some fs2"
  then have T: "cmd_touch st cwd nm =
           (\<lparr>inode_table = (inode_table st)[k := \<lparr>used = 1, type = CHR ''f''\<rparr>], storage = fs2\<rparr>, [])"
    and F: "dir_find fs2 cwd nm = Some \<lparr>inode = word_of_nat k, name = make_name32 nm\<rparr>"
    and E: "filter (\<lambda>e. name e = make_name32 nm) (dir_entries (file_bytes fs2 (inode_fname cwd)))
           = [\<lparr>inode = word_of_nat k, name = make_name32 nm\<rparr>]"
    using touch_created_state [of st cwd nm k fs1 fs2] by simp_all
  have again: "cmd_touch (fst (cmd_touch st cwd nm)) cwd nm = (fst (cmd_touch st cwd nm), [])"
    by (rule cmd_touch_exists) (simp add: T F)
  then show "cmd_touch (fst (cmd_touch st cwd nm)) cwd nm = (fst (cmd_touch st cwd nm), [])" .
  show "filter (\<lambda>e. name e = make_name32 nm)
        (dir_entries (file_bytes (storage (fst (cmd_touch (fst (cmd_touch st cwd nm)) cwd nm)))
                        (inode_fname cwd)))
        = [\<lparr>inode = word_of_nat k, name = make_name32 nm\<rparr>]"
    unfolding again using E by (simp add: T)
qed

text \<open>
  In the small state \<^verbatim>\<open>touch f\<close> finds the entry \<^verbatim>\<open>f\<close> and does nothing; \<^verbatim>\<open>touch x\<close> twice
  leaves the one entry \<^verbatim>\<open>x\<close> for the slot 3.
\<close>

theorem touch_idempotent_witness:
  "cmd_touch (small_state all_ok) 0 ''f'' = (small_state all_ok, []) \<and>
   cmd_touch (fst (cmd_touch (small_state all_ok) 0 ''x'')) 0 ''x''
     = (fst (cmd_touch (small_state all_ok) 0 ''x''), []) \<and>
   filter (\<lambda>e. name e = make_name32 ''x'')
     (dir_entries (file_bytes (storage (fst (cmd_touch (fst (cmd_touch (small_state all_ok) 0 ''x'')) 0 ''x'')))
                     ''0''))
     = [\<lparr>inode = 3, name = make_name32 ''x''\<rparr>]"
proof -
  let ?st = "small_state all_ok"
  have found: "dir_find (storage ?st) 0 ''f'' \<noteq> None"
    by (simp add: small_state_def small_dir_find all_ok_def make_name32_eq_iff cstr_def NUL_def NAME_LEN_def)
  obtain fs1 where cr: "create_file_inode (storage ?st) (word_of_nat 3) ''x'' = Some fs1"
    by (simp add: create_file_inode_eq small_state_def small_fs_def all_ok_def)
  obtain fs2 where ap: "dir_append fs1 0 (word_of_nat 3) ''x'' = Some fs2"
    using cr by (auto simp: create_file_inode_eq dir_append_eq small_state_def small_fs_def all_ok_def)
  have hyp: "length (inode_table ?st) = MAX_INODES \<and> cwd_ok (inode_table ?st) 0 \<and>
    fopen_ok (storage ?st) (inode_fname 0) RB \<and>
    aligned (file_bytes (storage ?st) (inode_fname 0)) \<and>
    dir_find (storage ?st) 0 ''x'' = None \<and> find_free_inode (inode_table ?st) = int 3 \<and>
    create_file_inode (storage ?st) (word_of_nat 3) ''x'' = Some fs1 \<and>
    dir_append fs1 0 (word_of_nat 3) ''x'' = Some fs2"
    using cr ap
    by (simp add: small_state_def small_table_nth small_cwd_ok small_aligned inode_fname_0
          small_find_x_ok all_ok_def small_free)
       (simp add: small_fs_def all_ok_def)
  from touch_idempotent [of ?st 0 "''f''"] found
  have 1: "cmd_touch ?st 0 ''f'' = (?st, [])" by blast
  from touch_idempotent [of ?st 0 "''x''" 3 fs1 fs2] hyp
  have 2: "cmd_touch (fst (cmd_touch ?st 0 ''x'')) 0 ''x'' = (fst (cmd_touch ?st 0 ''x''), []) \<and>
      filter (\<lambda>e. name e = make_name32 ''x'')
        (dir_entries (file_bytes (storage (fst (cmd_touch (fst (cmd_touch ?st 0 ''x'')) 0 ''x'')))
                        (inode_fname 0)))
        = [\<lparr>inode = word_of_nat 3, name = make_name32 ''x''\<rparr>]"
    by blast
  have 3: "(word_of_nat 3 :: u32) = 3" by simp
  from 1 2 show ?thesis unfolding inode_fname_0 3 by blast
qed

lemma mkdir_created_state:
  assumes len: "length (inode_table st) = MAX_INODES"
    and cwd: "cwd_ok (inode_table st) cwd"
    and rd: "fopen_ok (storage st) (inode_fname cwd) RB"
    and al: "aligned (file_bytes (storage st) (inode_fname cwd))"
    and none: "dir_find (storage st) cwd nm = None"
    and free: "find_free_inode (inode_table st) = int k"
    and wb: "fopen_ok (storage st) (inode_fname (word_of_nat k)) WB"
    and ab: "fopen_ok (storage st) (inode_fname cwd) AB"
  shows "dir_find (storage (fst (cmd_mkdir st cwd nm))) cwd q =
           (if make_name32 q = make_name32 nm
            then Some \<lparr>inode = word_of_nat k, name = make_name32 nm\<rparr>
            else dir_find (storage st) cwd q)"
  unfolding cmd_mkdir_success [OF len cwd none free wb ab]
  using dir_find_after_create [OF rd al none free_slot_not_cwd(1) [OF cwd free]] by simp

lemma touch_created_find:
  assumes len: "length (inode_table st) = MAX_INODES"
    and cwd: "cwd_ok (inode_table st) cwd"
    and rd: "fopen_ok (storage st) (inode_fname cwd) RB"
    and al: "aligned (file_bytes (storage st) (inode_fname cwd))"
    and none: "dir_find (storage st) cwd nm = None"
    and free: "find_free_inode (inode_table st) = int k"
    and wb: "fopen_ok (storage st) (inode_fname (word_of_nat k)) WB"
    and ab: "fopen_ok (storage st) (inode_fname cwd) AB"
  shows "dir_find (storage (fst (cmd_touch st cwd nm))) cwd q =
           (if make_name32 q = make_name32 nm
            then Some \<lparr>inode = word_of_nat k, name = make_name32 nm\<rparr>
            else dir_find (storage st) cwd q)"
  unfolding cmd_touch_success [OF len cwd none free wb ab]
  using dir_find_after_create [OF rd al none free_slot_not_cwd(1) [OF cwd free]] by simp

lemma same_encoding:
  assumes "make_name32 a = make_name32 b"
  shows "dir_find fs d a = dir_find fs d b"
    and "dir_append fs d c a = dir_append fs d c b"
    and "create_file_inode fs n a = create_file_inode fs n b"
  using assms
  by (simp_all add: dir_find_def dir_append_def create_file_inode_def Let_def
        cong: option.case_cong)

subsection \<open>Names with the same first 32 bytes\<close>

text \<open>
  Claim C10. Two names with the same 32-byte encoding cannot be told apart: \<^verbatim>\<open>cmd_cd\<close>,
  \<^verbatim>\<open>cmd_mkdir\<close> and \<^verbatim>\<open>cmd_touch\<close> do the same on both. So when the first is in the
  directory, \<^verbatim>\<open>cmd_mkdir\<close> of the second prints \<^verbatim>\<open>mkdir: already exists\<close> and \<^verbatim>\<open>cmd_touch\<close> of
  the second prints nothing, and both return the state as it was; this is the case after
  a \<^verbatim>\<open>cmd_touch\<close> or a \<^verbatim>\<open>cmd_mkdir\<close> that created the first (in a readable directory stream
  of whole records).
\<close>

theorem same_prefix_names_collide:
  assumes eq: "make_name32 n1 = make_name32 n2"
  shows "cmd_cd st cwd n1 = cmd_cd st cwd n2 \<and>
         cmd_mkdir st cwd n1 = cmd_mkdir st cwd n2 \<and>
         cmd_touch st cwd n1 = cmd_touch st cwd n2 \<and>
         (dir_find (storage st) cwd n1 \<noteq> None \<longrightarrow>
            cmd_mkdir st cwd n2 = (st, [Stderr (''mkdir: already exists'' @ [newline])]) \<and>
            cmd_touch st cwd n2 = (st, [])) \<and>
         (length (inode_table st) = MAX_INODES \<and> cwd_ok (inode_table st) cwd \<and>
          fopen_ok (storage st) (inode_fname cwd) RB \<and>
          aligned (file_bytes (storage st) (inode_fname cwd)) \<and>
          dir_find (storage st) cwd n1 = None \<and> find_free_inode (inode_table st) = int k \<and>
          fopen_ok (storage st) (inode_fname (word_of_nat k)) WB \<and>
          fopen_ok (storage st) (inode_fname cwd) AB \<longrightarrow>
            cmd_mkdir (fst (cmd_touch st cwd n1)) cwd n2
              = (fst (cmd_touch st cwd n1), [Stderr (''mkdir: already exists'' @ [newline])]) \<and>
            cmd_touch (fst (cmd_touch st cwd n1)) cwd n2 = (fst (cmd_touch st cwd n1), []) \<and>
            cmd_mkdir (fst (cmd_mkdir st cwd n1)) cwd n2
              = (fst (cmd_mkdir st cwd n1), [Stderr (''mkdir: already exists'' @ [newline])]) \<and>
            cmd_touch (fst (cmd_mkdir st cwd n1)) cwd n2 = (fst (cmd_mkdir st cwd n1), []))"
proof (intro conjI impI)
  note E = same_encoding [OF eq]
  show "cmd_cd st cwd n1 = cmd_cd st cwd n2" by (simp add: cmd_cd_def E(1))
  show "cmd_mkdir st cwd n1 = cmd_mkdir st cwd n2"
    by (simp add: cmd_mkdir_def E(1,2) Let_def cong: option.case_cong if_cong)
  show "cmd_touch st cwd n1 = cmd_touch st cwd n2"
    by (simp add: cmd_touch_def E Let_def cong: option.case_cong if_cong)
  {
    assume "dir_find (storage st) cwd n1 \<noteq> None"
    then have f: "dir_find (storage st) cwd n2 \<noteq> None" by (simp add: E(1))
    from f show "cmd_mkdir st cwd n2 = (st, [Stderr (''mkdir: already exists'' @ [newline])])"
      by (rule cmd_mkdir_exists)
    from f show "cmd_touch st cwd n2 = (st, [])" by (rule cmd_touch_exists)
  }
  assume A: "length (inode_table st) = MAX_INODES \<and> cwd_ok (inode_table st) cwd \<and>
          fopen_ok (storage st) (inode_fname cwd) RB \<and>
          aligned (file_bytes (storage st) (inode_fname cwd)) \<and>
          dir_find (storage st) cwd n1 = None \<and> find_free_inode (inode_table st) = int k \<and>
          fopen_ok (storage st) (inode_fname (word_of_nat k)) WB \<and>
          fopen_ok (storage st) (inode_fname cwd) AB"
  have t: "dir_find (storage (fst (cmd_touch st cwd n1))) cwd n2 \<noteq> None"
    using A touch_created_find [of st cwd n1 k n2] eq by simp
  have m: "dir_find (storage (fst (cmd_mkdir st cwd n1))) cwd n2 \<noteq> None"
    using A mkdir_created_state [of st cwd n1 k n2] eq by simp
  from t show "cmd_mkdir (fst (cmd_touch st cwd n1)) cwd n2
      = (fst (cmd_touch st cwd n1), [Stderr (''mkdir: already exists'' @ [newline])])"
    by (rule cmd_mkdir_exists)
  from t show "cmd_touch (fst (cmd_touch st cwd n1)) cwd n2 = (fst (cmd_touch st cwd n1), [])"
    by (rule cmd_touch_exists)
  from m show "cmd_mkdir (fst (cmd_mkdir st cwd n1)) cwd n2
      = (fst (cmd_mkdir st cwd n1), [Stderr (''mkdir: already exists'' @ [newline])])"
    by (rule cmd_mkdir_exists)
  from m show "cmd_touch (fst (cmd_mkdir st cwd n1)) cwd n2 = (fst (cmd_mkdir st cwd n1), [])"
    by (rule cmd_touch_exists)
qed

lemma long_names:
  "long_name1 \<noteq> long_name2" "make_name32 long_name1 = make_name32 long_name2"
  "make_name32 long_prefix = make_name32 long_name1"
  by (simp_all add: make_name32_eq_iff long_name1_def long_name2_def long_prefix_def cstr_def
        NUL_def NAME_LEN_def)

lemma small_find_long: "ok ''0'' RB \<Longrightarrow> dir_find (small_fs ok) 0 long_name1 = None"
  by (simp add: small_dir_find make_name32_eq_iff long_name1_def cstr_def NUL_def NAME_LEN_def)

lemma small_create_hyps:
  "length (inode_table (small_state all_ok)) = MAX_INODES \<and> cwd_ok (inode_table (small_state all_ok)) 0 \<and>
   fopen_ok (storage (small_state all_ok)) (inode_fname 0) RB \<and>
   aligned (file_bytes (storage (small_state all_ok)) (inode_fname 0)) \<and>
   find_free_inode (inode_table (small_state all_ok)) = int 3 \<and>
   fopen_ok (storage (small_state all_ok)) (inode_fname (word_of_nat 3)) WB \<and>
   fopen_ok (storage (small_state all_ok)) (inode_fname 0) AB"
  by (simp add: small_state_def small_table_nth small_cwd_ok small_aligned inode_fname_0
        small_free)
     (simp add: small_fs_def all_ok_def)

text \<open>
  The two long names differ and have the same encoding: after \<^verbatim>\<open>touch\<close> or \<^verbatim>\<open>mkdir\<close> of the
  first in the root of the small state, the second is refused or ignored.
\<close>

theorem same_prefix_names_collide_witness:
  "long_name1 \<noteq> long_name2 \<and> make_name32 long_name1 = make_name32 long_name2 \<and>
   cmd_mkdir (fst (cmd_touch (small_state all_ok) 0 long_name1)) 0 long_name2
     = (fst (cmd_touch (small_state all_ok) 0 long_name1),
        [Stderr (''mkdir: already exists'' @ [newline])]) \<and>
   cmd_touch (fst (cmd_touch (small_state all_ok) 0 long_name1)) 0 long_name2
     = (fst (cmd_touch (small_state all_ok) 0 long_name1), []) \<and>
   cmd_mkdir (fst (cmd_mkdir (small_state all_ok) 0 long_name1)) 0 long_name2
     = (fst (cmd_mkdir (small_state all_ok) 0 long_name1),
        [Stderr (''mkdir: already exists'' @ [newline])]) \<and>
   cmd_touch (fst (cmd_mkdir (small_state all_ok) 0 long_name1)) 0 long_name2
     = (fst (cmd_mkdir (small_state all_ok) 0 long_name1), [])"
proof -
  have none: "dir_find (storage (small_state all_ok)) 0 long_name1 = None"
    by (simp add: small_state_def small_find_long all_ok_def)
  from same_prefix_names_collide [OF long_names(2), of "small_state all_ok" 0 3]
    small_create_hyps none long_names(1,2)
  show ?thesis by blast
qed

lemma cstr_no_NUL: "NUL \<notin> set (take n (cstr s))"
proof
  assume "NUL \<in> set (take n (cstr s))"
  then have "NUL \<in> set (takeWhile (\<lambda>c. c \<noteq> NUL) s)"
    unfolding cstr_def by (rule in_set_takeD)
  then show False using set_takeWhileD by fastforce
qed

subsection \<open>The name buffer\<close>

text \<open>
  Claim C7. The buffer that \<^verbatim>\<open>make_name32\<close> fills has exactly 32 bytes: the bytes of the
  name (up to its terminator), at most 32 of them, then NUL bytes to the end; a name of 32
  bytes or more gives its first 32 bytes, with no NUL in the buffer. \<^verbatim>\<open>dir_find\<close> returns the
  first record whose 32 name bytes equal the 32 bytes of the encoded query, and every
  record read has 32 name bytes. Two names have the same buffer exactly when their first
  32 bytes agree. So after \<^verbatim>\<open>cmd_touch\<close> has created a name (of 40 bytes, say) in a readable
  directory stream of whole records, the lookup of a query finds the new entry exactly
  when the first 32 bytes of the query are those of the name; any other query gives what
  it gave before.
\<close>

theorem name_buffer_encoding:
  "length (make_name32 s) = 32 \<and>
   make_name32 s = take 32 (cstr s) @ replicate (32 - length (cstr s)) NUL \<and>
   (32 \<le> length (cstr s) \<longrightarrow> make_name32 s = take 32 (cstr s) \<and> NUL \<notin> set (make_name32 s)) \<and>
   dir_find fs d q =
     (case fopen_rb fs (inode_fname d) of
        None \<Rightarrow> None
      | Some bs \<Rightarrow> find (\<lambda>e. name e = make_name32 q) (dir_entries bs)) \<and>
   (\<forall>e \<in> set (dir_entries bs). length (name e) = 32) \<and>
   (make_name32 q = make_name32 s \<longleftrightarrow> take 32 (cstr q) = take 32 (cstr s)) \<and>
   (length (inode_table st) = MAX_INODES \<and> cwd_ok (inode_table st) cwd \<and>
    fopen_ok (storage st) (inode_fname cwd) RB \<and>
    aligned (file_bytes (storage st) (inode_fname cwd)) \<and>
    dir_find (storage st) cwd s = None \<and> find_free_inode (inode_table st) = int k \<and>
    fopen_ok (storage st) (inode_fname (word_of_nat k)) WB \<and>
    fopen_ok (storage st) (inode_fname cwd) AB \<longrightarrow>
      dir_find (storage (fst (cmd_touch st cwd s))) cwd q =
        (if take 32 (cstr q) = take 32 (cstr s)
         then Some \<lparr>inode = word_of_nat k, name = make_name32 s\<rparr>
         else dir_find (storage st) cwd q))"
proof (intro conjI impI ballI)
  show "length (make_name32 s) = 32" by (simp add: length_make_name32 NAME_LEN_def)
  show e: "make_name32 s = take 32 (cstr s) @ replicate (32 - length (cstr s)) NUL"
    using make_name32_eq [of s] by (simp add: NAME_LEN_def)
  show "make_name32 s = take 32 (cstr s)" if "32 \<le> length (cstr s)"
    using that e by simp
  show "NUL \<notin> set (make_name32 s)" if "32 \<le> length (cstr s)"
    using that e cstr_no_NUL [of 32 s] by simp
  show "dir_find fs d q =
     (case fopen_rb fs (inode_fname d) of
        None \<Rightarrow> None
      | Some bs \<Rightarrow> find (\<lambda>e. name e = make_name32 q) (dir_entries bs))"
    by (rule dir_find_eq)
  show "length (name e) = 32" if "e \<in> set (dir_entries bs)" for e
    using dir_entries_name_length [OF that] by (simp add: NAME_LEN_def)
  show i: "make_name32 q = make_name32 s \<longleftrightarrow> take 32 (cstr q) = take 32 (cstr s)"
    using make_name32_eq_iff [of q s] by (simp add: NAME_LEN_def)
  assume "length (inode_table st) = MAX_INODES \<and> cwd_ok (inode_table st) cwd \<and>
    fopen_ok (storage st) (inode_fname cwd) RB \<and>
    aligned (file_bytes (storage st) (inode_fname cwd)) \<and>
    dir_find (storage st) cwd s = None \<and> find_free_inode (inode_table st) = int k \<and>
    fopen_ok (storage st) (inode_fname (word_of_nat k)) WB \<and>
    fopen_ok (storage st) (inode_fname cwd) AB"
  then show "dir_find (storage (fst (cmd_touch st cwd s))) cwd q =
        (if take 32 (cstr q) = take 32 (cstr s)
         then Some \<lparr>inode = word_of_nat k, name = make_name32 s\<rparr>
         else dir_find (storage st) cwd q)"
    using touch_created_find [of st cwd s k q] by (simp add: i)
qed

lemma long_cstr:
  "cstr long_name1 = long_name1" "take 32 long_name1 = long_prefix" "cstr long_prefix = long_prefix"
  "take 32 long_prefix = long_prefix" "cstr short_prefix = short_prefix"
  "take 32 short_prefix = short_prefix" "short_prefix \<noteq> long_prefix" "length long_name1 = 40"
  by (simp_all add: long_name1_def long_prefix_def short_prefix_def cstr_def NUL_def)

lemma small_find_short: "ok ''0'' RB \<Longrightarrow> dir_find (small_fs ok) 0 short_prefix = None"
  by (simp add: small_dir_find make_name32_eq_iff short_prefix_def cstr_def NUL_def NAME_LEN_def)

text \<open>
  The first long name has 40 bytes and its buffer is its first 32 bytes. Once
  \<^verbatim>\<open>cmd_touch\<close> has stored it in the root of the small state, the name itself and its first
  32 bytes find the entry of slot 3, and its first 31 bytes find nothing.
\<close>

theorem name_buffer_encoding_witness:
  "length long_name1 = 40 \<and> make_name32 long_name1 = long_prefix \<and>
   dir_find (storage (fst (cmd_touch (small_state all_ok) 0 long_name1))) 0 long_name1
     = Some \<lparr>inode = 3, name = long_prefix\<rparr> \<and>
   dir_find (storage (fst (cmd_touch (small_state all_ok) 0 long_name1))) 0 long_prefix
     = Some \<lparr>inode = 3, name = long_prefix\<rparr> \<and>
   dir_find (storage (fst (cmd_touch (small_state all_ok) 0 long_name1))) 0 short_prefix = None"
proof -
  let ?st = "small_state all_ok"
  have none: "dir_find (storage ?st) 0 long_name1 = None"
    by (simp add: small_state_def small_find_long all_ok_def)
  have short: "dir_find (storage ?st) 0 short_prefix = None"
    by (simp add: small_state_def small_find_short all_ok_def)
  have hyp: "length (inode_table ?st) = MAX_INODES \<and> cwd_ok (inode_table ?st) 0 \<and>
    fopen_ok (storage ?st) (inode_fname 0) RB \<and>
    aligned (file_bytes (storage ?st) (inode_fname 0)) \<and>
    dir_find (storage ?st) 0 long_name1 = None \<and> find_free_inode (inode_table ?st) = int 3 \<and>
    fopen_ok (storage ?st) (inode_fname (word_of_nat 3)) WB \<and>
    fopen_ok (storage ?st) (inode_fname 0) AB"
    using small_create_hyps none by blast
  have len: "32 \<le> length (cstr long_name1)" by (simp add: long_cstr)
  have 3: "(word_of_nat 3 :: u32) = 3" by simp
  note T = name_buffer_encoding [where s = long_name1 and st = ?st and cwd = 0 and k = 3]
  note full = T [THEN conjunct2, THEN conjunct2, THEN conjunct1]
  note L = T [THEN conjunct2, THEN conjunct2, THEN conjunct2, THEN conjunct2, THEN conjunct2,
              THEN conjunct2, rule_format, OF hyp]
  from full len have m: "make_name32 long_name1 = long_prefix" by (simp add: long_cstr)
  from L [of long_name1]
  have a: "dir_find (storage (fst (cmd_touch ?st 0 long_name1))) 0 long_name1
     = Some \<lparr>inode = 3, name = long_prefix\<rparr>" by (simp add: m)
  from L [of long_prefix]
  have b: "dir_find (storage (fst (cmd_touch ?st 0 long_name1))) 0 long_prefix
     = Some \<lparr>inode = 3, name = long_prefix\<rparr>" by (simp add: m long_cstr)
  from L [of short_prefix]
  have c: "dir_find (storage (fst (cmd_touch ?st 0 long_name1))) 0 short_prefix = None"
    by (simp add: long_cstr short)
  from m a b c long_cstr(8) show ?thesis by simp
qed

subsection \<open>The current directory\<close>

lemma length_load_loop: "length (fst (load_loop bs tbl)) = length tbl"
proof (induction bs tbl rule: load_loop.induct)
  case (1 bs tbl)
  show ?case
  proof (cases "length bs < 4 \<or> length (drop 4 bs) < 1")
    case True
    then show ?thesis by (auto simp: load_loop.simps [of bs tbl])
  next
    case False
    then have a: "\<not> length bs < 4" and b: "\<not> length (drop 4 bs) < 1" by auto
    note IH = "1.IH" [OF a b refl refl refl]
    show ?thesis
    proof (cases "MAX_INODES \<le> unat (dec32 (take 4 bs))")
      case True
      with IH(1) a b show ?thesis
        by (simp add: load_loop.simps [of bs tbl] case_prod_beta Let_def)
    next
      case r: False
      show ?thesis
      proof (cases "hd (drop 4 bs) \<noteq> CHR ''d'' \<and> hd (drop 4 bs) \<noteq> CHR ''f''")
        case True
        with IH(2) [OF r] a b r show ?thesis
          by (simp add: load_loop.simps [of bs tbl] case_prod_beta Let_def)
      next
        case False
        with IH(3) [OF r False refl refl] a b r show ?thesis
          by (auto simp: load_loop.simps [of bs tbl] Let_def)
      qed
    qed
  qed
qed

lemma main_init_inv:
  assumes "main_init fs = Inr (st, cwd, os)"
  shows "cwd = 0" and "length (inode_table st) = MAX_INODES" and "cwd_ok (inode_table st) cwd"
    and "storage st = fs"
proof -
  from assms obtain tbl where L: "load_inodes_list fs empty_table = Some (tbl, os)"
    and ok: "\<not> (used (tbl ! 0) = 0 \<or> type (tbl ! 0) \<noteq> CHR ''d'')"
    and st: "st = \<lparr>inode_table = tbl, storage = fs\<rparr>" and c: "cwd = 0"
    by (auto simp: main_init_def split: option.splits if_splits)
  from L have "length tbl = length empty_table"
    using length_load_loop by (auto simp: load_inodes_list_def split: option.splits) (metis fst_conv)
  then have len: "length tbl = MAX_INODES" by (simp add: empty_table_def)
  show "cwd = 0" by (rule c)
  show "length (inode_table st) = MAX_INODES" using len st by simp
  show "cwd_ok (inode_table st) cwd" using ok st c by (simp add: cwd_ok_def MAX_INODES_def)
  show "storage st = fs" using st by simp
qed

lemma cmd_cd_inv:
  assumes "cwd_ok (inode_table st) cwd"
  shows "cwd_ok (inode_table st) (fst (cmd_cd st cwd nm))"
  using assms by (auto simp: cmd_cd_def cwd_ok_def split: option.splits)

lemma create_table:
  assumes len: "length (inode_table st) = MAX_INODES"
  shows "length (inode_table (fst (cmd_mkdir st cwd nm))) = MAX_INODES \<and>
         (\<forall>j<MAX_INODES. used (inode_table st ! j) \<noteq> 0 \<longrightarrow>
              inode_table (fst (cmd_mkdir st cwd nm)) ! j = inode_table st ! j) \<and>
         length (inode_table (fst (cmd_touch st cwd nm))) = MAX_INODES \<and>
         (\<forall>j<MAX_INODES. used (inode_table st ! j) \<noteq> 0 \<longrightarrow>
              inode_table (fst (cmd_touch st cwd nm)) ! j = inode_table st ! j)"
proof (cases "dir_find (storage st) cwd nm = None")
  case False
  then show ?thesis using len by (simp add: cmd_mkdir_exists cmd_touch_exists)
next
  case none: True
  show ?thesis
  proof (cases "find_free_inode (inode_table st) < 0")
    case True
    then show ?thesis using len none by (simp add: cmd_mkdir_full cmd_touch_full)
  next
    case False
    then obtain k where free: "find_free_inode (inode_table st) = int k"
      using find_free_from_cases [of "inode_table st" 0] by (auto simp: find_free_inode_def)
    then have k: "k < MAX_INODES" "used (inode_table st ! k) = 0"
      by (simp_all add: find_free_inode_first)
    have n: "used (inode_table st ! j) \<noteq> 0 \<Longrightarrow> (inode_table st)[k := v] ! j = inode_table st ! j"
      for j v using k(2) by (cases "j = k") auto
    show ?thesis
      using len
      by (auto simp: cmd_mkdir_alloc [OF none free len] cmd_touch_alloc [OF none free len] n
            split: option.splits)
  qed
qed

lemma create_inv:
  assumes "length (inode_table st) = MAX_INODES" and "cwd_ok (inode_table st) cwd"
  shows "cwd_ok (inode_table (fst (cmd_mkdir st cwd nm))) cwd"
    and "cwd_ok (inode_table (fst (cmd_touch st cwd nm))) cwd"
  using create_table [OF assms(1), of cwd nm] assms(2) by (auto simp: cwd_ok_def)

lemma exec_line_inv:
  assumes len: "length (inode_table st) = MAX_INODES" and ok: "cwd_ok (inode_table st) cwd"
    and ex: "exec_line st cwd line = (st', cwd', os, stop)"
  shows "length (inode_table st') = MAX_INODES \<and> cwd_ok (inode_table st') cwd' \<and>
         (cwd' = cwd \<or> (\<exists>nm. cwd' = fst (cmd_cd st cwd nm)))"
proof -
  note C = create_table [OF len] create_inv [OF len ok] cmd_cd_inv [OF ok]
  show ?thesis
    using ex len ok C
    by (auto simp: exec_line_def Let_def case_prod_beta split: list.splits if_splits)
qed

lemma main_loop_inv:
  "length (inode_table st) = MAX_INODES \<Longrightarrow> cwd_ok (inode_table st) cwd \<Longrightarrow>
   main_loop st cwd lines = (st', cwd', os) \<Longrightarrow>
   length (inode_table st') = MAX_INODES \<and> cwd_ok (inode_table st') cwd'"
proof (induction lines arbitrary: st cwd st' cwd' os)
  case Nil
  then show ?case by (auto simp: case_prod_beta)
next
  case (Cons line rest)
  obtain s1 c1 o1 stop where E: "exec_line st cwd line = (s1, c1, o1, stop)"
    by (cases "exec_line st cwd line") auto
  from exec_line_inv [OF Cons.prems(1,2) E]
  have inv: "length (inode_table s1) = MAX_INODES" "cwd_ok (inode_table s1) c1" by simp_all
  show ?case
  proof (cases stop)
    case True
    with Cons.prems(3) E inv show ?thesis by simp
  next
    case False
    obtain s2 c2 o2 where M: "main_loop s1 c1 rest = (s2, c2, o2)"
      by (cases "main_loop s1 c1 rest") auto
    from Cons.prems(3) E False M have "st' = s2" "cwd' = c2" by simp_all
    with Cons.IH [OF inv M] show ?thesis by simp
  qed
qed

text \<open>
  Claim C9. The session starts, when it starts, at \<^verbatim>\<open>cwd = 0\<close> with inode 0 a used directory
  of a table of \<^verbatim>\<open>MAX_INODES\<close> slots. Every turn of the loop keeps the current directory an
  index below \<^verbatim>\<open>MAX_INODES\<close> whose slot is used with type \<^verbatim>\<open>'d'\<close>, and changes \<^verbatim>\<open>cwd\<close> only to
  a result of \<^verbatim>\<open>cmd_cd\<close>. So this holds of the state after every input: the input is any
  list of lines, hence also every prefix of a session.
\<close>

theorem cwd_invariant:
  "(main_init fs = Inr (st0, cwd0, os0) \<longrightarrow>
      cwd0 = 0 \<and> length (inode_table st0) = MAX_INODES \<and> cwd_ok (inode_table st0) cwd0) \<and>
   (length (inode_table st) = MAX_INODES \<and> cwd_ok (inode_table st) cwd \<and>
    exec_line st cwd line = (st', cwd', os, stop) \<longrightarrow>
      length (inode_table st') = MAX_INODES \<and> cwd_ok (inode_table st') cwd' \<and>
      (cwd' = cwd \<or> (\<exists>nm. cwd' = fst (cmd_cd st cwd nm)))) \<and>
   (main fs lines = (code, os1, Some (st1, cwd1)) \<longrightarrow>
      unat cwd1 < MAX_INODES \<and> used (inode_table st1 ! unat cwd1) \<noteq> 0 \<and>
      type (inode_table st1 ! unat cwd1) = CHR ''d'')"
proof -
  have A: "cwd0 = 0 \<and> length (inode_table st0) = MAX_INODES \<and> cwd_ok (inode_table st0) cwd0"
    if "main_init fs = Inr (st0, cwd0, os0)"
    using main_init_inv [OF that] by simp
  have B: "length (inode_table st') = MAX_INODES \<and> cwd_ok (inode_table st') cwd' \<and>
      (cwd' = cwd \<or> (\<exists>nm. cwd' = fst (cmd_cd st cwd nm)))"
    if "length (inode_table st) = MAX_INODES \<and> cwd_ok (inode_table st) cwd \<and>
        exec_line st cwd line = (st', cwd', os, stop)"
    using that exec_line_inv [of st cwd line st' cwd' os stop] by blast
  have C: "unat cwd1 < MAX_INODES \<and> used (inode_table st1 ! unat cwd1) \<noteq> 0 \<and>
      type (inode_table st1 ! unat cwd1) = CHR ''d''"
    if M: "main fs lines = (code, os1, Some (st1, cwd1))"
  proof -
    from M obtain s c os0 where I: "main_init fs = Inr (s, c, os0)"
      by (auto simp: main_def split: sum.splits)
    with M obtain os' where L: "main_loop s c lines = (st1, cwd1, os')"
      by (auto simp: main_def case_prod_beta prod_eq_iff)
    from main_loop_inv [OF main_init_inv(2,3) [OF I] L] show ?thesis
      by (simp add: cwd_ok_def)
  qed
  from A B C show ?thesis by blast
qed

lemma load_inode_record:
  assumes "j < MAX_INODES" and "t = CHR ''d'' \<or> t = CHR ''f''" and "j < length tbl"
  shows "load_loop (inode_record (word_of_nat j) t @ rest) tbl
         = load_loop rest (tbl[j := \<lparr>used = 1, type = t\<rparr>])"
  using load_loop_record [OF assms, of rest] by (simp add: inode_record_def)

lemma saved_init:
  "main_init saved_fs = Inr (\<lparr>inode_table = small_table, storage = saved_fs\<rparr>, 0, [])"
proof -
  have "load_loop (inode_record 0 CHR ''d'' @ inode_record 1 CHR ''f'' @ inode_record 2 CHR ''d'')
          empty_table = (small_table, [])"
    using load_inode_record [of 0 "CHR ''d''" empty_table]
      load_inode_record [of 1 "CHR ''f''" "empty_table[0 := \<lparr>used = 1, type = CHR ''d''\<rparr>]"]
      load_inode_record [of 2 "CHR ''d''" "empty_table[0 := \<lparr>used = 1, type = CHR ''d''\<rparr>,
          1 := \<lparr>used = 1, type = CHR ''f''\<rparr>]" "[]"]
    by (simp add: MAX_INODES_def empty_table_def small_table_def load_loop.simps [of "[]"])
  then show ?thesis
    by (simp add: main_init_def load_inodes_list_def fopen_rb_def saved_fs_def small_fs_def
          all_ok_def small_table_nth)
qed

lemma saved_dir_find: "dir_find saved_fs 0 nm = dir_find (small_fs all_ok) 0 nm"
  by (simp add: dir_find_def fopen_rb_def saved_fs_def inode_fname_0 small_fs_def)

lemma saved_cd:
  "exec_line \<lparr>inode_table = small_table, storage = saved_fs\<rparr> 0 ''cd d''
   = (\<lparr>inode_table = small_table, storage = saved_fs\<rparr>, 2, [], False)"
proof -
  have t: "strtok_all [] (takeWhile (\<lambda>c. c \<noteq> newline) (cstr ''cd d'')) = [''cd'', ''d'']"
    by (simp add: cstr_def NUL_def newline_def)
  have f: "dir_find saved_fs 0 ''d'' = Some \<lparr>inode = 2, name = make_name32 ''d''\<rparr>"
    unfolding saved_dir_find
    by (simp add: small_dir_find all_ok_def make_name32_eq_iff cstr_def NUL_def NAME_LEN_def)
  have c: "cmd_cd \<lparr>inode_table = small_table, storage = saved_fs\<rparr> 0 ''d'' = (2, [])"
    by (simp add: cmd_cd_def f small_table_nth MAX_INODES_def)
  show ?thesis by (simp add: exec_line_def t c)
qed

text \<open>
  The session on the small storage root starts at the root; \<^verbatim>\<open>cd d\<close> moves to the
  directory in slot 2, and the session of that one line ends there.
\<close>

theorem cwd_invariant_witness:
  "main_init saved_fs = Inr (\<lparr>inode_table = small_table, storage = saved_fs\<rparr>, 0, []) \<and>
   cwd_ok small_table 0 \<and>
   exec_line \<lparr>inode_table = small_table, storage = saved_fs\<rparr> 0 ''cd d''
     = (\<lparr>inode_table = small_table, storage = saved_fs\<rparr>, 2, [], False) \<and>
   cwd_ok small_table 2 \<and>
   (\<exists>os st1. main saved_fs [''cd d''] = (0, os, Some (st1, 2)) \<and>
      used (inode_table st1 ! unat (2::u32)) \<noteq> 0 \<and> type (inode_table st1 ! unat (2::u32)) = CHR ''d'')"
proof -
  let ?S = "\<lparr>inode_table = small_table, storage = saved_fs\<rparr>"
  obtain os st1 where M: "main saved_fs [''cd d''] = (0, os, Some (st1, 2))"
    by (simp add: main_def saved_init saved_cd case_prod_beta)
  note T = cwd_invariant [of saved_fs ?S 0 "[]" ?S 0 "''cd d''" ?S 2 "[]" False "[''cd d'']" 0 os st1 2]
  from T saved_init have a: "cwd_ok small_table 0" by simp
  from T a saved_cd have b: "cwd_ok small_table 2" by (simp add: small_table_nth)
  from T M have c: "used (inode_table st1 ! unat (2::u32)) \<noteq> 0 \<and>
      type (inode_table st1 ! unat (2::u32)) = CHR ''d''" by blast
  from saved_init saved_cd a b M c show ?thesis by blast
qed

subsection \<open>Recoverable failures\<close>

lemma small_mkdir_append_fails:
  "create_dir_inode (storage (small_state no_append0)) 3 0
     = Some ((small_fs no_append0)\<lparr>content := (content (small_fs no_append0))
          (''3'' \<mapsto> enc32 3 @ make_name32 ''.'' @ enc32 0 @ make_name32 ''..'')\<rparr>)"
  "dir_append ((small_fs no_append0)\<lparr>content := (content (small_fs no_append0))
          (''3'' \<mapsto> enc32 3 @ make_name32 ''.'' @ enc32 0 @ make_name32 ''..'')\<rparr>) 0 3 ''x'' = None"
  "cmd_mkdir (small_state no_append0) 0 ''x''
     = (\<lparr>inode_table = small_table[3 := \<lparr>used = 0, type = CHR ''d''\<rparr>],
         storage = (small_fs no_append0)\<lparr>content := (content (small_fs no_append0))
          (''3'' \<mapsto> enc32 3 @ make_name32 ''.'' @ enc32 0 @ make_name32 ''..'')\<rparr>\<rparr>, [])"
proof -
  show c: "create_dir_inode (storage (small_state no_append0)) 3 0
     = Some ((small_fs no_append0)\<lparr>content := (content (small_fs no_append0))
          (''3'' \<mapsto> enc32 3 @ make_name32 ''.'' @ enc32 0 @ make_name32 ''..'')\<rparr>)"
    by (simp add: small_state_def create_dir_inode_eq inode_fname_3)
       (simp add: small_fs_def no_append0_def)
  show a: "dir_append ((small_fs no_append0)\<lparr>content := (content (small_fs no_append0))
          (''3'' \<mapsto> enc32 3 @ make_name32 ''.'' @ enc32 0 @ make_name32 ''..'')\<rparr>) 0 3 ''x'' = None"
    by (simp add: dir_append_eq inode_fname_0) (simp add: small_fs_def no_append0_def)
  have none: "dir_find (storage (small_state no_append0)) 0 ''x'' = None"
    by (simp add: small_state_def small_find_x_ok no_append0_def)
  have free: "find_free_inode (inode_table (small_state no_append0)) = int 3"
    by (simp add: small_state_def small_free)
  have len: "length (inode_table (small_state no_append0)) = MAX_INODES"
    by (simp add: small_state_def small_table_nth)
  show "cmd_mkdir (small_state no_append0) 0 ''x''
     = (\<lparr>inode_table = small_table[3 := \<lparr>used = 0, type = CHR ''d''\<rparr>],
         storage = (small_fs no_append0)\<lparr>content := (content (small_fs no_append0))
          (''3'' \<mapsto> enc32 3 @ make_name32 ''.'' @ enc32 0 @ make_name32 ''..'')\<rparr>\<rparr>, [])"
    using c a by (simp add: cmd_mkdir_alloc [OF none free len]) (simp add: small_state_def)
qed

text \<open>
  Claim C6 fails on the code. In the small state where the root directory cannot be opened
  for appending, \<^verbatim>\<open>mkdir x\<close> creates the backing stream of inode 3 and then fails to
  append: it prints nothing, the file \<^verbatim>\<open>3\<close> stays in the storage root, and slot 3 keeps the
  type \<^verbatim>\<open>'d'\<close>.
\<close>

theorem failure_diagnostic_counterexample:
  "dir_append (the (create_dir_inode (storage (small_state no_append0)) 3 0)) 0 3 ''x'' = None \<and>
   snd (cmd_mkdir (small_state no_append0) 0 ''x'') = [] \<and>
   content (storage (small_state no_append0)) ''3'' = None \<and>
   content (storage (fst (cmd_mkdir (small_state no_append0) 0 ''x''))) ''3''
     = Some (enc32 3 @ make_name32 ''.'' @ enc32 0 @ make_name32 ''..'') \<and>
   type (inode_table (small_state no_append0) ! 3) = NUL \<and>
   type (inode_table (fst (cmd_mkdir (small_state no_append0) 0 ''x'')) ! 3) = CHR ''d'' \<and>
   fst (cmd_mkdir (small_state no_append0) 0 ''x'') \<noteq> small_state no_append0"
proof -
  have t1: "type (inode_table (small_state no_append0) ! 3) = NUL"
    by (simp add: small_state_def small_table_nth)
  have t2: "type (inode_table (fst (cmd_mkdir (small_state no_append0) 0 ''x'')) ! 3) = CHR ''d''"
    by (simp add: small_mkdir_append_fails(3) small_table_nth MAX_INODES_def)
  note t = t1 t2
  then have "fst (cmd_mkdir (small_state no_append0) 0 ''x'') \<noteq> small_state no_append0"
    by (auto simp: NUL_def)
  with t show ?thesis
    by (simp add: small_mkdir_append_fails) (simp add: small_state_def small_fs_def)
qed

lemma cmd_cd_failure:
  "snd (cmd_cd st cwd nm) \<noteq> [] \<Longrightarrow>
   fst (cmd_cd st cwd nm) = cwd \<and>
   (snd (cmd_cd st cwd nm) = [Stderr (''cd: no such directory'' @ [newline])] \<or>
    snd (cmd_cd st cwd nm) = [Stderr (''cd: not a directory'' @ [newline])])"
  by (auto simp: cmd_cd_def split: option.splits if_splits)

lemma create_outputs:
  "snd (cmd_mkdir st cwd nm) = [] \<or>
   snd (cmd_mkdir st cwd nm) = [Stderr (''mkdir: already exists'' @ [newline])] \<or>
   snd (cmd_mkdir st cwd nm) = [Stderr (''mkdir: no free inodes'' @ [newline])]"
  "snd (cmd_touch st cwd nm) = [] \<or>
   snd (cmd_touch st cwd nm) = [Stderr (''touch: no free inodes'' @ [newline])]"
  by (auto simp: cmd_mkdir_def cmd_touch_def Let_def split: option.splits if_splits)

lemma outputs_not_invalid:
  "snd (cmd_cd st cwd nm) \<noteq> invalid_command \<or> fst (cmd_cd st cwd nm) = cwd"
  "snd (cmd_mkdir st cwd nm) \<noteq> invalid_command"
  "snd (cmd_touch st cwd nm) \<noteq> invalid_command"
  "snd (save_inodes_list fs tbl) \<noteq> invalid_command"
proof -
  show "snd (cmd_cd st cwd nm) \<noteq> invalid_command \<or> fst (cmd_cd st cwd nm) = cwd"
    using cmd_cd_failure [of st cwd nm] by (auto simp: invalid_command_def)
  show "snd (cmd_mkdir st cwd nm) \<noteq> invalid_command"
    using create_outputs(1) [of st cwd nm] by (auto simp: invalid_command_def)
  show "snd (cmd_touch st cwd nm) \<noteq> invalid_command"
    using create_outputs(2) [of st cwd nm] by (auto simp: invalid_command_def)
  show "snd (save_inodes_list fs tbl) \<noteq> invalid_command"
    by (auto simp: save_inodes_list_def invalid_command_def split: option.splits)
qed

lemma invalid_line:
  assumes "exec_line st cwd line = (st', cwd', invalid_command, stop)"
  shows "st' = st \<and> cwd' = cwd \<and> \<not> stop"
  using assms outputs_not_invalid(1) [of st cwd] outputs_not_invalid(2) [of st cwd]
    outputs_not_invalid(3) [of st cwd] outputs_not_invalid(4) [of "storage st" "inode_table st"]
  by (auto simp: exec_line_def Let_def case_prod_beta split: list.splits if_splits)

lemma malformed_line:
  assumes "strtok_all [] (takeWhile (\<lambda>c. c \<noteq> newline) (cstr line)) = cmd # args"
    and "(cmd \<noteq> ''ls'' \<and> cmd \<noteq> ''cd'' \<and> cmd \<noteq> ''mkdir'' \<and> cmd \<noteq> ''touch'' \<and> cmd \<noteq> ''exit'') \<or>
         ((cmd = ''ls'' \<or> cmd = ''exit'') \<and> args \<noteq> []) \<or>
         ((cmd = ''cd'' \<or> cmd = ''mkdir'' \<or> cmd = ''touch'') \<and> length args \<noteq> 1)"
  shows "exec_line st cwd line = (st, cwd, invalid_command, False)"
proof -
  have l: "length args \<noteq> 1 \<longleftrightarrow> args = [] \<or> tl args \<noteq> []" by (cases args) auto
  from assms(2) show ?thesis
    unfolding l by (auto simp: exec_line_def assms(1))
qed

lemma exec_line_dispatch:
  "strtok_all [] (takeWhile (\<lambda>c. c \<noteq> newline) (cstr line)) = [''ls''] \<Longrightarrow>
     exec_line st cwd line = (st, cwd, cmd_ls st cwd, False)"
  "strtok_all [] (takeWhile (\<lambda>c. c \<noteq> newline) (cstr line)) = [''cd'', a] \<Longrightarrow>
     exec_line st cwd line = (st, fst (cmd_cd st cwd a), snd (cmd_cd st cwd a), False)"
  "strtok_all [] (takeWhile (\<lambda>c. c \<noteq> newline) (cstr line)) = [''mkdir'', a] \<Longrightarrow>
     exec_line st cwd line = (fst (cmd_mkdir st cwd a), cwd, snd (cmd_mkdir st cwd a), False)"
  "strtok_all [] (takeWhile (\<lambda>c. c \<noteq> newline) (cstr line)) = [''touch'', a] \<Longrightarrow>
     exec_line st cwd line = (fst (cmd_touch st cwd a), cwd, snd (cmd_touch st cwd a), False)"
  "strtok_all [] (takeWhile (\<lambda>c. c \<noteq> newline) (cstr line)) = [''exit''] \<Longrightarrow>
   fopen_wb (storage st) ''inodes_list'' = None \<Longrightarrow>
     exec_line st cwd line = (st, cwd, [Perror ''inodes_list''], True)"
  by (simp_all add: exec_line_def case_prod_beta save_inodes_list_def)

lemma create_dir_frame:
  "create_dir_inode fs n p = Some fs1 \<Longrightarrow>
   fopen_ok fs1 = fopen_ok fs \<and> (\<forall>f. f \<noteq> inode_fname n \<longrightarrow> content fs1 f = content fs f)"
  by (auto simp: create_dir_inode_eq split: if_splits)

lemma create_file_frame:
  "create_file_inode fs n nm = Some fs1 \<Longrightarrow>
   fopen_ok fs1 = fopen_ok fs \<and> (\<forall>f. f \<noteq> inode_fname n \<longrightarrow> content fs1 f = content fs f)"
  by (auto simp: create_file_inode_eq split: if_splits)

lemma map_used_free_update:
  assumes "k < length tbl" and "used (tbl ! k) = 0"
  shows "map used (tbl[k := \<lparr>used = 0, type = t\<rparr>]) = map used tbl"
  using assms by (simp add: list_eq_iff_nth_eq nth_list_update)

text \<open>
  Claim C6 as amended. A failure found before anything is written prints one diagnostic
  and returns the state and \<^verbatim>\<open>cwd\<close> as they were: \<^verbatim>\<open>cmd_cd\<close> of a missing name or of a name
  that is no used directory, \<^verbatim>\<open>cmd_mkdir\<close> of a name in the directory, \<^verbatim>\<open>cmd_mkdir\<close> and
  \<^verbatim>\<open>cmd_touch\<close> with no free slot, a line whose command is unknown or has the wrong
  number of arguments (it prints \<^verbatim>\<open>Invalid command\<close>), \<^verbatim>\<open>cmd_ls\<close> and \<^verbatim>\<open>save_inodes_list\<close>
  that cannot open their stream. The loop of \<^verbatim>\<open>main\<close> passes these results on: a line with
  \<^verbatim>\<open>ls\<close> or \<^verbatim>\<open>cd\<close> keeps the state, a line with \<^verbatim>\<open>mkdir\<close> or \<^verbatim>\<open>touch\<close> keeps \<^verbatim>\<open>cwd\<close>, and
  \<^verbatim>\<open>exit\<close> with a failed saving keeps both. A failed creation of the backing stream
  or a failed append in \<^verbatim>\<open>cmd_mkdir\<close> and \<^verbatim>\<open>cmd_touch\<close> prints nothing; the used flag of every
  slot is as before and the allocated slot holds the new type tag; the storage is as
  before when the creation fails, and differs from it only in the backing stream of the
  new inode when the append fails.
\<close>

theorem recoverable_failures:
  "(dir_find (storage st) cwd nm = None \<longrightarrow>
      cmd_cd st cwd nm = (cwd, [Stderr (''cd: no such directory'' @ [newline])])) \<and>
   (\<forall>ent. dir_find (storage st) cwd nm = Some ent \<and>
          (unat (inode ent) \<ge> MAX_INODES \<or> used (inode_table st ! unat (inode ent)) = 0 \<or>
           type (inode_table st ! unat (inode ent)) \<noteq> CHR ''d'') \<longrightarrow>
      cmd_cd st cwd nm = (cwd, [Stderr (''cd: not a directory'' @ [newline])])) \<and>
   (snd (cmd_cd st cwd nm) \<noteq> [] \<longrightarrow>
      fst (cmd_cd st cwd nm) = cwd \<and>
      (snd (cmd_cd st cwd nm) = [Stderr (''cd: no such directory'' @ [newline])] \<or>
       snd (cmd_cd st cwd nm) = [Stderr (''cd: not a directory'' @ [newline])])) \<and>
   (dir_find (storage st) cwd nm \<noteq> None \<longrightarrow>
      cmd_mkdir st cwd nm = (st, [Stderr (''mkdir: already exists'' @ [newline])])) \<and>
   (dir_find (storage st) cwd nm = None \<and> find_free_inode (inode_table st) < 0 \<longrightarrow>
      cmd_mkdir st cwd nm = (st, [Stderr (''mkdir: no free inodes'' @ [newline])]) \<and>
      cmd_touch st cwd nm = (st, [Stderr (''touch: no free inodes'' @ [newline])])) \<and>
   (\<forall>cmd args. strtok_all [] (takeWhile (\<lambda>c. c \<noteq> newline) (cstr line)) = cmd # args \<and>
        ((cmd \<noteq> ''ls'' \<and> cmd \<noteq> ''cd'' \<and> cmd \<noteq> ''mkdir'' \<and> cmd \<noteq> ''touch'' \<and> cmd \<noteq> ''exit'') \<or>
         ((cmd = ''ls'' \<or> cmd = ''exit'') \<and> args \<noteq> []) \<or>
         ((cmd = ''cd'' \<or> cmd = ''mkdir'' \<or> cmd = ''touch'') \<and> length args \<noteq> 1)) \<longrightarrow>
      exec_line st cwd line = (st, cwd, invalid_command, False)) \<and>
   (exec_line st cwd line = (st', cwd', invalid_command, stop) \<longrightarrow>
      st' = st \<and> cwd' = cwd \<and> \<not> stop) \<and>
   (fopen_rb (storage st) (inode_fname cwd) = None \<longrightarrow> cmd_ls st cwd = [Perror ''ls'']) \<and>
   (fopen_wb fs ''inodes_list'' = None \<longrightarrow>
      save_inodes_list fs tbl = (fs, [Perror ''inodes_list''])) \<and>
   (length (inode_table st) = MAX_INODES \<and> dir_find (storage st) cwd nm = None \<and>
    find_free_inode (inode_table st) = int k \<longrightarrow>
      map used ((inode_table st)[k := \<lparr>used = 0, type = t\<rparr>]) = map used (inode_table st) \<and>
      (create_dir_inode (storage st) (word_of_nat k) cwd = None \<longrightarrow>
         cmd_mkdir st cwd nm =
           (\<lparr>inode_table = (inode_table st)[k := \<lparr>used = 0, type = CHR ''d''\<rparr>],
             storage = storage st\<rparr>, [])) \<and>
      (create_file_inode (storage st) (word_of_nat k) nm = None \<longrightarrow>
         cmd_touch st cwd nm =
           (\<lparr>inode_table = (inode_table st)[k := \<lparr>used = 0, type = CHR ''f''\<rparr>],
             storage = storage st\<rparr>, [])) \<and>
      (\<forall>fs1. create_dir_inode (storage st) (word_of_nat k) cwd = Some fs1 \<and>
             dir_append fs1 cwd (word_of_nat k) nm = None \<longrightarrow>
         cmd_mkdir st cwd nm =
           (\<lparr>inode_table = (inode_table st)[k := \<lparr>used = 0, type = CHR ''d''\<rparr>],
             storage = fs1\<rparr>, []) \<and>
         fopen_ok fs1 = fopen_ok (storage st) \<and>
         (\<forall>f. f \<noteq> inode_fname (word_of_nat k) \<longrightarrow> content fs1 f = content (storage st) f)) \<and>
      (\<forall>fs1. create_file_inode (storage st) (word_of_nat k) nm = Some fs1 \<and>
             dir_append fs1 cwd (word_of_nat k) nm = None \<longrightarrow>
         cmd_touch st cwd nm =
           (\<lparr>inode_table = (inode_table st)[k := \<lparr>used = 0, type = CHR ''f''\<rparr>],
             storage = fs1\<rparr>, []) \<and>
         fopen_ok fs1 = fopen_ok (storage st) \<and>
         (\<forall>f. f \<noteq> inode_fname (word_of_nat k) \<longrightarrow> content fs1 f = content (storage st) f))) \<and>
   ((strtok_all [] (takeWhile (\<lambda>c. c \<noteq> newline) (cstr line)) = [''ls''] \<longrightarrow>
       exec_line st cwd line = (st, cwd, cmd_ls st cwd, False)) \<and>
    (\<forall>a. strtok_all [] (takeWhile (\<lambda>c. c \<noteq> newline) (cstr line)) = [''cd'', a] \<longrightarrow>
       exec_line st cwd line = (st, fst (cmd_cd st cwd a), snd (cmd_cd st cwd a), False)) \<and>
    (\<forall>a. strtok_all [] (takeWhile (\<lambda>c. c \<noteq> newline) (cstr line)) = [''mkdir'', a] \<longrightarrow>
       exec_line st cwd line = (fst (cmd_mkdir st cwd a), cwd, snd (cmd_mkdir st cwd a), False)) \<and>
    (\<forall>a. strtok_all [] (takeWhile (\<lambda>c. c \<noteq> newline) (cstr line)) = [''touch'', a] \<longrightarrow>
       exec_line st cwd line = (fst (cmd_touch st cwd a), cwd, snd (cmd_touch st cwd a), False)) \<and>
    (strtok_all [] (takeWhile (\<lambda>c. c \<noteq> newline) (cstr line)) = [''exit''] \<and>
     fopen_wb (storage st) ''inodes_list'' = None \<longrightarrow>
       exec_line st cwd line = (st, cwd, [Perror ''inodes_list''], True)))"
proof -
  have A: "snd (cmd_cd st cwd nm) \<noteq> [] \<longrightarrow>
      fst (cmd_cd st cwd nm) = cwd \<and>
      (snd (cmd_cd st cwd nm) = [Stderr (''cd: no such directory'' @ [newline])] \<or>
       snd (cmd_cd st cwd nm) = [Stderr (''cd: not a directory'' @ [newline])])"
    using cmd_cd_failure [of st cwd nm] by blast
  have A1: "dir_find (storage st) cwd nm = None \<longrightarrow>
      cmd_cd st cwd nm = (cwd, [Stderr (''cd: no such directory'' @ [newline])])"
    by (simp add: cmd_cd_def)
  have A2: "\<forall>ent. dir_find (storage st) cwd nm = Some ent \<and>
          (unat (inode ent) \<ge> MAX_INODES \<or> used (inode_table st ! unat (inode ent)) = 0 \<or>
           type (inode_table st ! unat (inode ent)) \<noteq> CHR ''d'') \<longrightarrow>
      cmd_cd st cwd nm = (cwd, [Stderr (''cd: not a directory'' @ [newline])])"
    by (auto simp: cmd_cd_def)
  have D1: "\<forall>cmd args. strtok_all [] (takeWhile (\<lambda>c. c \<noteq> newline) (cstr line)) = cmd # args \<and>
        ((cmd \<noteq> ''ls'' \<and> cmd \<noteq> ''cd'' \<and> cmd \<noteq> ''mkdir'' \<and> cmd \<noteq> ''touch'' \<and> cmd \<noteq> ''exit'') \<or>
         ((cmd = ''ls'' \<or> cmd = ''exit'') \<and> args \<noteq> []) \<or>
         ((cmd = ''cd'' \<or> cmd = ''mkdir'' \<or> cmd = ''touch'') \<and> length args \<noteq> 1)) \<longrightarrow>
      exec_line st cwd line = (st, cwd, invalid_command, False)"
    using malformed_line [of line _ _ st cwd] by blast
  have B: "dir_find (storage st) cwd nm \<noteq> None \<longrightarrow>
      cmd_mkdir st cwd nm = (st, [Stderr (''mkdir: already exists'' @ [newline])])"
    by (simp add: cmd_mkdir_exists)
  have C: "dir_find (storage st) cwd nm = None \<and> find_free_inode (inode_table st) < 0 \<longrightarrow>
      cmd_mkdir st cwd nm = (st, [Stderr (''mkdir: no free inodes'' @ [newline])]) \<and>
      cmd_touch st cwd nm = (st, [Stderr (''touch: no free inodes'' @ [newline])])"
    by (simp add: cmd_mkdir_full cmd_touch_full)
  have D: "exec_line st cwd line = (st', cwd', invalid_command, stop) \<longrightarrow>
      st' = st \<and> cwd' = cwd \<and> \<not> stop"
    using invalid_line [of st cwd line st' cwd' stop] by blast
  have E: "fopen_rb (storage st) (inode_fname cwd) = None \<longrightarrow> cmd_ls st cwd = [Perror ''ls'']"
    by (simp add: cmd_ls_def)
  have F: "fopen_wb fs ''inodes_list'' = None \<longrightarrow>
      save_inodes_list fs tbl = (fs, [Perror ''inodes_list''])"
    by (simp add: save_inodes_list_def)
  have G: "map used ((inode_table st)[k := \<lparr>used = 0, type = t\<rparr>]) = map used (inode_table st) \<and>
      (create_dir_inode (storage st) (word_of_nat k) cwd = None \<longrightarrow>
         cmd_mkdir st cwd nm =
           (\<lparr>inode_table = (inode_table st)[k := \<lparr>used = 0, type = CHR ''d''\<rparr>],
             storage = storage st\<rparr>, [])) \<and>
      (create_file_inode (storage st) (word_of_nat k) nm = None \<longrightarrow>
         cmd_touch st cwd nm =
           (\<lparr>inode_table = (inode_table st)[k := \<lparr>used = 0, type = CHR ''f''\<rparr>],
             storage = storage st\<rparr>, [])) \<and>
      (\<forall>fs1. create_dir_inode (storage st) (word_of_nat k) cwd = Some fs1 \<and>
             dir_append fs1 cwd (word_of_nat k) nm = None \<longrightarrow>
         cmd_mkdir st cwd nm =
           (\<lparr>inode_table = (inode_table st)[k := \<lparr>used = 0, type = CHR ''d''\<rparr>],
             storage = fs1\<rparr>, []) \<and>
         fopen_ok fs1 = fopen_ok (storage st) \<and>
         (\<forall>f. f \<noteq> inode_fname (word_of_nat k) \<longrightarrow> content fs1 f = content (storage st) f)) \<and>
      (\<forall>fs1. create_file_inode (storage st) (word_of_nat k) nm = Some fs1 \<and>
             dir_append fs1 cwd (word_of_nat k) nm = None \<longrightarrow>
         cmd_touch st cwd nm =
           (\<lparr>inode_table = (inode_table st)[k := \<lparr>used = 0, type = CHR ''f''\<rparr>],
             storage = fs1\<rparr>, []) \<and>
         fopen_ok fs1 = fopen_ok (storage st) \<and>
         (\<forall>f. f \<noteq> inode_fname (word_of_nat k) \<longrightarrow> content fs1 f = content (storage st) f))"
    (is "?G")
    if len: "length (inode_table st) = MAX_INODES" and none: "dir_find (storage st) cwd nm = None"
      and free: "find_free_inode (inode_table st) = int k"
  proof -
    from free len have k: "k < length (inode_table st)" "used (inode_table st ! k) = 0"
      by (simp_all add: find_free_inode_first)
    show ?thesis
      using map_used_free_update [OF k] create_dir_frame [of "storage st" "word_of_nat k" cwd]
        create_file_frame [of "storage st" "word_of_nat k" nm]
      by (simp add: cmd_mkdir_alloc [OF none free len] cmd_touch_alloc [OF none free len])
  qed
  have H: "(strtok_all [] (takeWhile (\<lambda>c. c \<noteq> newline) (cstr line)) = [''ls''] \<longrightarrow>
       exec_line st cwd line = (st, cwd, cmd_ls st cwd, False)) \<and>
    (\<forall>a. strtok_all [] (takeWhile (\<lambda>c. c \<noteq> newline) (cstr line)) = [''cd'', a] \<longrightarrow>
       exec_line st cwd line = (st, fst (cmd_cd st cwd a), snd (cmd_cd st cwd a), False)) \<and>
    (\<forall>a. strtok_all [] (takeWhile (\<lambda>c. c \<noteq> newline) (cstr line)) = [''mkdir'', a] \<longrightarrow>
       exec_line st cwd line = (fst (cmd_mkdir st cwd a), cwd, snd (cmd_mkdir st cwd a), False)) \<and>
    (\<forall>a. strtok_all [] (takeWhile (\<lambda>c. c \<noteq> newline) (cstr line)) = [''touch'', a] \<longrightarrow>
       exec_line st cwd line = (fst (cmd_touch st cwd a), cwd, snd (cmd_touch st cwd a), False)) \<and>
    (strtok_all [] (takeWhile (\<lambda>c. c \<noteq> newline) (cstr line)) = [''exit''] \<and>
     fopen_wb (storage st) ''inodes_list'' = None \<longrightarrow>
       exec_line st cwd line = (st, cwd, [Perror ''inodes_list''], True))"
    using exec_line_dispatch [where line = line and st = st and cwd = cwd] by blast
  have G': "length (inode_table st) = MAX_INODES \<and> dir_find (storage st) cwd nm = None \<and>
      find_free_inode (inode_table st) = int k \<longrightarrow> ?G"
    using G by blast
  show ?thesis
    by (rule conjI A1 A2 A B C D1 D E F G' H)+
qed

lemma small_touch_append_fails:
  "create_file_inode (storage (small_state no_append0)) 3 ''x''
     = Some ((small_fs no_append0)\<lparr>content := (content (small_fs no_append0))(''3'' \<mapsto> ''x'')\<rparr>)"
  "dir_append ((small_fs no_append0)\<lparr>content := (content (small_fs no_append0))(''3'' \<mapsto> ''x'')\<rparr>)
     0 3 ''x'' = None"
proof -
  show "create_file_inode (storage (small_state no_append0)) 3 ''x''
     = Some ((small_fs no_append0)\<lparr>content := (content (small_fs no_append0))(''3'' \<mapsto> ''x'')\<rparr>)"
    by (simp add: small_state_def create_file_inode_eq inode_fname_3)
       (simp add: small_fs_def no_append0_def cstr_def NUL_def NAME_LEN_def)
  show "dir_append ((small_fs no_append0)\<lparr>content := (content (small_fs no_append0))(''3'' \<mapsto> ''x'')\<rparr>)
     0 3 ''x'' = None"
    by (simp add: dir_append_eq inode_fname_0) (simp add: small_fs_def no_append0_def)
qed

lemma small_tokens:
  "strtok_all [] (takeWhile (\<lambda>c. c \<noteq> newline) (cstr ''rm x'')) = [''rm'', ''x'']"
  "strtok_all [] (takeWhile (\<lambda>c. c \<noteq> newline) (cstr ''cd'')) = [''cd'']"
  "strtok_all [] (takeWhile (\<lambda>c. c \<noteq> newline) (cstr ''mkdir a b'')) = [''mkdir'', ''a'', ''b'']"
  "strtok_all [] (takeWhile (\<lambda>c. c \<noteq> newline) (cstr ''ls x'')) = [''ls'', ''x'']"
  "strtok_all [] (takeWhile (\<lambda>c. c \<noteq> newline) (cstr ''ls'')) = [''ls'']"
  "strtok_all [] (takeWhile (\<lambda>c. c \<noteq> newline) (cstr ''exit'')) = [''exit'']"
  "strtok_all [] (takeWhile (\<lambda>c. c \<noteq> newline) (cstr ''cd x'')) = [''cd'', ''x'']"
  by (simp_all add: cstr_def NUL_def newline_def)

text \<open>
  In the small state: \<^verbatim>\<open>cd x\<close> (missing), \<^verbatim>\<open>cd f\<close> (a file) and \<^verbatim>\<open>cd ghost\<close> (a free slot),
  \<^verbatim>\<open>mkdir f\<close>, \<^verbatim>\<open>touch x\<close> on the full table and the lines \<^verbatim>\<open>rm x\<close>, \<^verbatim>\<open>cd\<close>, \<^verbatim>\<open>mkdir a b\<close> and
  \<^verbatim>\<open>ls x\<close> print their diagnostic and change nothing, as do \<^verbatim>\<open>ls\<close> and the saving when
  nothing can be opened; \<^verbatim>\<open>mkdir x\<close> and \<^verbatim>\<open>touch x\<close> print nothing when the file \<^verbatim>\<open>3\<close> cannot
  be created (storage unchanged) and when the root cannot be appended to (file \<^verbatim>\<open>3\<close> left).
\<close>

theorem recoverable_failures_witness:
  "cmd_cd (small_state all_ok) 0 ''x'' = (0, [Stderr (''cd: no such directory'' @ [newline])]) \<and>
   cmd_cd (small_state all_ok) 0 ''f'' = (0, [Stderr (''cd: not a directory'' @ [newline])]) \<and>
   cmd_cd (small_state all_ok) 0 ''ghost'' = (0, [Stderr (''cd: not a directory'' @ [newline])]) \<and>
   cmd_mkdir (small_state all_ok) 0 ''f''
     = (small_state all_ok, [Stderr (''mkdir: already exists'' @ [newline])]) \<and>
   cmd_touch \<lparr>inode_table = full_table, storage = small_fs all_ok\<rparr> 0 ''x''
     = (\<lparr>inode_table = full_table, storage = small_fs all_ok\<rparr>,
        [Stderr (''touch: no free inodes'' @ [newline])]) \<and>
   exec_line (small_state all_ok) 0 ''rm x'' = (small_state all_ok, 0, invalid_command, False) \<and>
   exec_line (small_state all_ok) 0 ''cd'' = (small_state all_ok, 0, invalid_command, False) \<and>
   exec_line (small_state all_ok) 0 ''mkdir a b'' = (small_state all_ok, 0, invalid_command, False) \<and>
   exec_line (small_state all_ok) 0 ''ls x'' = (small_state all_ok, 0, invalid_command, False) \<and>
   exec_line (small_state none_ok) 0 ''ls'' = (small_state none_ok, 0, [Perror ''ls''], False) \<and>
   exec_line (small_state none_ok) 0 ''exit''
     = (small_state none_ok, 0, [Perror ''inodes_list''], True) \<and>
   exec_line (small_state all_ok) 0 ''cd x''
     = (small_state all_ok, 0, [Stderr (''cd: no such directory'' @ [newline])], False) \<and>
   cmd_ls (small_state none_ok) 0 = [Perror ''ls''] \<and>
   save_inodes_list (small_fs none_ok) small_table = (small_fs none_ok, [Perror ''inodes_list'']) \<and>
   cmd_mkdir (small_state no_create3) 0 ''x''
     = (\<lparr>inode_table = small_table[3 := \<lparr>used = 0, type = CHR ''d''\<rparr>],
         storage = small_fs no_create3\<rparr>, []) \<and>
   cmd_touch (small_state no_create3) 0 ''x''
     = (\<lparr>inode_table = small_table[3 := \<lparr>used = 0, type = CHR ''f''\<rparr>],
         storage = small_fs no_create3\<rparr>, []) \<and>
   cmd_mkdir (small_state no_append0) 0 ''x''
     = (\<lparr>inode_table = small_table[3 := \<lparr>used = 0, type = CHR ''d''\<rparr>],
         storage = (small_fs no_append0)\<lparr>content := (content (small_fs no_append0))
           (''3'' \<mapsto> enc32 3 @ make_name32 ''.'' @ enc32 0 @ make_name32 ''..'')\<rparr>\<rparr>, []) \<and>
   cmd_touch (small_state no_append0) 0 ''x''
     = (\<lparr>inode_table = small_table[3 := \<lparr>used = 0, type = CHR ''f''\<rparr>],
         storage = (small_fs no_append0)\<lparr>content := (content (small_fs no_append0))
           (''3'' \<mapsto> ''x'')\<rparr>\<rparr>, [])"
proof -
  let ?S = "small_state all_ok"
  let ?F = "\<lparr>inode_table = full_table, storage = small_fs all_ok\<rparr>"
  note R = recoverable_failures
  note R1 = R [THEN conjunct1]
  note R2 = R [THEN conjunct2, THEN conjunct1]
  note R3 = R [THEN conjunct2, THEN conjunct2, THEN conjunct1]
  note R4 = R [THEN conjunct2, THEN conjunct2, THEN conjunct2, THEN conjunct1]
  note R5 = R [THEN conjunct2, THEN conjunct2, THEN conjunct2, THEN conjunct2, THEN conjunct1]
  note R6 = R [THEN conjunct2, THEN conjunct2, THEN conjunct2, THEN conjunct2, THEN conjunct2, THEN conjunct1]
  note R7 = R [THEN conjunct2, THEN conjunct2, THEN conjunct2, THEN conjunct2, THEN conjunct2, THEN conjunct2, THEN conjunct1]
  note R8 = R [THEN conjunct2, THEN conjunct2, THEN conjunct2, THEN conjunct2, THEN conjunct2, THEN conjunct2, THEN conjunct2, THEN conjunct1]
  note R9 = R [THEN conjunct2, THEN conjunct2, THEN conjunct2, THEN conjunct2, THEN conjunct2, THEN conjunct2, THEN conjunct2, THEN conjunct2, THEN conjunct1]
  note R10 = R [THEN conjunct2, THEN conjunct2, THEN conjunct2, THEN conjunct2, THEN conjunct2, THEN conjunct2, THEN conjunct2, THEN conjunct2, THEN conjunct2, THEN conjunct1]
  note R11 = R [THEN conjunct2, THEN conjunct2, THEN conjunct2, THEN conjunct2, THEN conjunct2, THEN conjunct2, THEN conjunct2, THEN conjunct2, THEN conjunct2, THEN conjunct2]
  have t: "inode_table (small_state ok) = small_table" "storage (small_state ok) = small_fs ok" for ok
    by (simp_all add: small_state_def)
  have fx: "dir_find (storage ?S) 0 ''x'' = None" "dir_find (storage ?F) 0 ''x'' = None"
    by (simp_all add: small_state_def small_find_x_ok all_ok_def)
  have ff: "dir_find (storage ?S) 0 ''f'' = Some \<lparr>inode = 1, name = make_name32 ''f''\<rparr>"
    by (simp add: small_state_def small_dir_find all_ok_def make_name32_eq_iff cstr_def NUL_def
          NAME_LEN_def)
  have fg: "dir_find (storage ?S) 0 ''ghost'' = Some \<lparr>inode = 5, name = make_name32 ''ghost''\<rparr>"
    by (simp add: small_state_def small_dir_find all_ok_def make_name32_eq_iff cstr_def NUL_def
          NAME_LEN_def)
  from R1 [THEN mp, OF fx(1)]
  have 1: "cmd_cd ?S 0 ''x'' = (0, [Stderr (''cd: no such directory'' @ [newline])])" .
  have "dir_find (storage ?S) 0 ''f'' = Some \<lparr>inode = 1, name = make_name32 ''f''\<rparr> \<and>
      (unat (inode \<lparr>inode = 1, name = make_name32 ''f''\<rparr>) \<ge> MAX_INODES \<or>
       used (inode_table ?S ! unat (inode \<lparr>inode = 1, name = make_name32 ''f''\<rparr>)) = 0 \<or>
       type (inode_table ?S ! unat (inode \<lparr>inode = 1, name = make_name32 ''f''\<rparr>)) \<noteq> CHR ''d'')"
    using ff by (simp add: t small_table_nth)
  from R2 [THEN spec, THEN mp, OF this]
  have cd_f: "cmd_cd ?S 0 ''f'' = (0, [Stderr (''cd: not a directory'' @ [newline])])" .
  have "dir_find (storage ?S) 0 ''ghost'' = Some \<lparr>inode = 5, name = make_name32 ''ghost''\<rparr> \<and>
      (unat (inode \<lparr>inode = 5, name = make_name32 ''ghost''\<rparr>) \<ge> MAX_INODES \<or>
       used (inode_table ?S ! unat (inode \<lparr>inode = 5, name = make_name32 ''ghost''\<rparr>)) = 0 \<or>
       type (inode_table ?S ! unat (inode \<lparr>inode = 5, name = make_name32 ''ghost''\<rparr>)) \<noteq> CHR ''d'')"
    using fg by (simp add: t small_table_nth)
  from R2 [THEN spec, THEN mp, OF this]
  have cd_g: "cmd_cd ?S 0 ''ghost'' = (0, [Stderr (''cd: not a directory'' @ [newline])])" .
  from 1 have "snd (cmd_cd ?S 0 ''x'') \<noteq> []" by simp
  note R3 [THEN mp, OF this]
  from ff have "dir_find (storage ?S) 0 ''f'' \<noteq> None" by simp
  from R4 [THEN mp, OF this]
  have 2: "cmd_mkdir ?S 0 ''f'' = (?S, [Stderr (''mkdir: already exists'' @ [newline])])" .
  have "find_free_inode (inode_table ?F) < 0"
    by (simp add: find_free_inode_neg full_table_used)
  with fx(2) have "dir_find (storage ?F) 0 ''x'' = None \<and> find_free_inode (inode_table ?F) < 0"
    by simp
  from R5 [THEN mp, OF this]
  have 3: "cmd_touch ?F 0 ''x'' = (?F, [Stderr (''touch: no free inodes'' @ [newline])])"
    by simp
  have 4: "exec_line ?S 0 ''rm x'' = (?S, 0, invalid_command, False)"
    by (rule R6 [THEN spec [of _ "''rm''"], THEN spec [of _ "[''x'']"], THEN mp]) (simp add: small_tokens)
  have inv_a: "exec_line ?S 0 ''cd'' = (?S, 0, invalid_command, False)"
    by (rule R6 [THEN spec [of _ "''cd''"], THEN spec [of _ "[]"], THEN mp]) (simp add: small_tokens)
  have inv_b: "exec_line ?S 0 ''mkdir a b'' = (?S, 0, invalid_command, False)"
    by (rule R6 [THEN spec [of _ "''mkdir''"], THEN spec [of _ "[''a'', ''b'']"], THEN mp]) (simp add: small_tokens)
  have inv_c: "exec_line ?S 0 ''ls x'' = (?S, 0, invalid_command, False)"
    by (rule R6 [THEN spec [of _ "''ls''"], THEN spec [of _ "[''x'']"], THEN mp]) (simp add: small_tokens)
  note R7 [THEN mp, OF 4]
  have "fopen_rb (storage (small_state none_ok)) (inode_fname 0) = None"
    by (simp add: fopen_rb_def small_state_def small_fs_def none_ok_def)
  from R8 [THEN mp, OF this]
  have 5: "cmd_ls (small_state none_ok) 0 = [Perror ''ls'']" .
  have "fopen_wb (small_fs none_ok) ''inodes_list'' = None"
    by (simp add: fopen_wb_def small_fs_def none_ok_def)
  from R9 [THEN mp, OF this]
  have 6: "save_inodes_list (small_fs none_ok) small_table
              = (small_fs none_ok, [Perror ''inodes_list''])" .
  have h: "length (inode_table (small_state ok)) = MAX_INODES \<and>
      dir_find (storage (small_state ok)) 0 ''x'' = None \<and>
      find_free_inode (inode_table (small_state ok)) = int 3" if "ok ''0'' RB" for ok
    using that by (simp add: small_state_def small_table_nth small_find_x_ok small_free)
  have w3: "(word_of_nat 3 :: u32) = 3" by simp
  have c: "create_dir_inode (storage (small_state no_create3)) 3 0 = None"
    "create_file_inode (storage (small_state no_create3)) 3 ''x'' = None"
    by (simp_all add: small_state_def small_fs_def create_dir_inode_eq create_file_inode_eq
          inode_fname_3 no_create3_def)
  have "no_create3 ''0'' RB" by (simp add: no_create3_def)
  note N = R10 [THEN mp, OF h [of no_create3, OF this], unfolded w3]
  from N [THEN conjunct2, THEN conjunct1, THEN mp, OF c(1)]
  have 7: "cmd_mkdir (small_state no_create3) 0 ''x''
     = (\<lparr>inode_table = small_table[3 := \<lparr>used = 0, type = CHR ''d''\<rparr>],
         storage = small_fs no_create3\<rparr>, [])"
    by (simp add: t)
  from N [THEN conjunct2, THEN conjunct2, THEN conjunct1, THEN mp, OF c(2)]
  have 8: "cmd_touch (small_state no_create3) 0 ''x''
     = (\<lparr>inode_table = small_table[3 := \<lparr>used = 0, type = CHR ''f''\<rparr>],
         storage = small_fs no_create3\<rparr>, [])"
    by (simp add: t)
  have "no_append0 ''0'' RB" by (simp add: no_append0_def)
  note A = R10 [THEN mp, OF h [of no_append0, OF this], unfolded w3]
  from A [THEN conjunct2, THEN conjunct2, THEN conjunct2, THEN conjunct1, THEN spec, THEN mp,
          OF conjI, OF small_mkdir_append_fails(1,2)]
  have 9: "cmd_mkdir (small_state no_append0) 0 ''x''
     = (\<lparr>inode_table = small_table[3 := \<lparr>used = 0, type = CHR ''d''\<rparr>],
         storage = (small_fs no_append0)\<lparr>content := (content (small_fs no_append0))
           (''3'' \<mapsto> enc32 3 @ make_name32 ''.'' @ enc32 0 @ make_name32 ''..'')\<rparr>\<rparr>, [])"
    by (simp add: t)
  from A [THEN conjunct2, THEN conjunct2, THEN conjunct2, THEN conjunct2, THEN spec, THEN mp,
          OF conjI, OF small_touch_append_fails]
  have 10: "cmd_touch (small_state no_append0) 0 ''x''
     = (\<lparr>inode_table = small_table[3 := \<lparr>used = 0, type = CHR ''f''\<rparr>],
         storage = (small_fs no_append0)\<lparr>content := (content (small_fs no_append0))
           (''3'' \<mapsto> ''x'')\<rparr>\<rparr>, [])"
    by (simp add: t)
  have ws: "fopen_wb (storage (small_state none_ok)) ''inodes_list'' = None"
    by (simp add: fopen_wb_def small_state_def small_fs_def none_ok_def)
  from R11 [THEN conjunct1, THEN mp, OF small_tokens(5)] 5
  have d_ls: "exec_line (small_state none_ok) 0 ''ls''
      = (small_state none_ok, 0, [Perror ''ls''], False)" by simp
  from R11 [THEN conjunct2, THEN conjunct2, THEN conjunct2, THEN conjunct2, THEN mp,
            OF conjI, OF small_tokens(6) ws]
  have d_exit: "exec_line (small_state none_ok) 0 ''exit''
      = (small_state none_ok, 0, [Perror ''inodes_list''], True)" .
  from R11 [THEN conjunct2, THEN conjunct1, THEN spec, THEN mp, OF small_tokens(7)] 1
  have d_cd: "exec_line ?S 0 ''cd x''
      = (?S, 0, [Stderr (''cd: no such directory'' @ [newline])], False)" by simp
  show ?thesis
    by (intro conjI)
       (rule 1 cd_f cd_g 2 3 4 inv_a inv_b inv_c d_ls d_exit d_cd 5 6 7 8 9 10)+
qed

end
